theory Spec2Isabelle
  imports Complex_Main
begin

section \<open>Values, requests and the environment of the hook\<close>

text \<open>
  The hook \<^verbatim>\<open>KakaoHook\<close> of \<^verbatim>\<open>hooks/kakao.py\<close> handles Python values of any JSON shape
  (\<^verbatim>\<open>api_params: Dict[str, Any]\<close>, the parsed bodies of HTTP responses). They are the
  values of \<open>pyval\<close>; a dictionary inside a value is an association list in insertion
  order, with distinct keys as in Python. \<open>PBytes\<close> is a \<^verbatim>\<open>bytes\<close> object: a value that
  \<^verbatim>\<open>Any\<close> admits and that is not JSON.
\<close>

datatype pyval =
    PNone
  | PBool bool
  | PInt int
  | PStr string
  | PBytes string
  | PList "pyval list"
  | PDict "(string \<times> pyval) list"

text \<open>Python's truth test, as \<^verbatim>\<open>if x:\<close> and \<^verbatim>\<open>not x\<close> apply it.\<close>

fun truthy :: "pyval \<Rightarrow> bool" where
  "truthy PNone = False"
| "truthy (PBool b) = b"
| "truthy (PInt i) = (i \<noteq> 0)"
| "truthy (PStr s) = (s \<noteq> [])"
| "truthy (PBytes b) = (b \<noteq> [])"
| "truthy (PList xs) = (xs \<noteq> [])"
| "truthy (PDict kvs) = (kvs \<noteq> [])"

text \<open>The truth test on a value of type \<^verbatim>\<open>str | None\<close>.\<close>

fun str_truthy :: "string option \<Rightarrow> bool" where
  "str_truthy None = False"
| "str_truthy (Some s) = (s \<noteq> [])"

text \<open>\<^verbatim>\<open>d.get(k)\<close> on a dictionary value: \<^verbatim>\<open>None\<close> when the key is missing.\<close>

definition dict_get :: "(string \<times> pyval) list \<Rightarrow> string \<Rightarrow> pyval" where
  "dict_get d k = (case map_of d k of None \<Rightarrow> PNone | Some v \<Rightarrow> v)"

text \<open>
  An HTTP request as \<^verbatim>\<open>requests.post(url, headers=..., data=...)\<close> receives it, and what
  comes back: a response, or an exception of the transport (connection refused, timeout).
  A response carries what \<^verbatim>\<open>response.json()\<close> returns; \<open>None\<close> there means that the body
  is not JSON and \<^verbatim>\<open>json()\<close> raises.
\<close>

record request =
  url :: string
  headers :: "(string \<times> string) list"
  data :: "(string \<times> string) list"

record response =
  status_code :: nat
  body_text :: string
  json :: "pyval option"

datatype reply = TransportFailure string | Response response

text \<open>
  The exceptions that leave the hook. The message of an \<^verbatim>\<open>AirflowException\<close> built by an
  f-string \<^verbatim>\<open>f"prefix: {e}"\<close> is kept as the prefix and the exception formatted into it.
\<close>

datatype exn =
    AirflowException string "exn option"
  | AirflowNotFoundException string
  | HTTPError response
  | RequestException string
  | JSONDecodeError
  | AttributeError
  | TypeError
  | ValueError

text \<open>The connection of the host platform: \<^verbatim>\<open>conn.login\<close>, \<^verbatim>\<open>conn.password\<close> and
  \<^verbatim>\<open>conn.extra_dejson.get("client_secret")\<close>.\<close>

record connection =
  login :: "string option"
  password :: "string option"
  client_secret :: "string option"

text \<open>
  Everything the hook calls and does not define is a field of the environment: the
  connection lookup of the host, the network behind \<^verbatim>\<open>requests.post\<close> (its reply may depend
  on all the requests issued before), \<^verbatim>\<open>json.loads\<close> (\<open>None\<close> when it raises),
  \<^verbatim>\<open>json.dumps\<close> (which raises \<^verbatim>\<open>TypeError\<close> on a value that is not JSON and \<^verbatim>\<open>ValueError\<close>
  on a circular one), and \<^verbatim>\<open>str()\<close> on a value that is not a string.
\<close>

text \<open>The two ways in which \<^verbatim>\<open>json.dumps\<close> raises, and the exception that each is.\<close>

datatype dumps_error = NotSerializable | CircularReference

fun raise_dumps :: "dumps_error \<Rightarrow> exn" where
  "raise_dumps NotSerializable = TypeError"
| "raise_dumps CircularReference = ValueError"

record env =
  get_connection :: "string \<Rightarrow> connection option"
  post :: "request list \<Rightarrow> request \<Rightarrow> reply"
  json_loads :: "string \<Rightarrow> pyval option"
  json_dumps :: "pyval \<Rightarrow> dumps_error + string"
  py_str :: "pyval \<Rightarrow> string"

text \<open>The value interpolated by an f-string: a string stands for itself.\<close>

definition fstr :: "env \<Rightarrow> pyval \<Rightarrow> string" where
  "fstr e v = (case v of PStr s \<Rightarrow> s | _ \<Rightarrow> py_str e v)"

text \<open>
  The state of the world is the list of the HTTP requests issued so far, oldest first.
  \<^verbatim>\<open>requests.post\<close> appends the request and returns the reply of the network.
\<close>

definition requests_post :: "env \<Rightarrow> request list \<Rightarrow> request \<Rightarrow> reply \<times> request list" where
  "requests_post e hist req = (post e hist req, hist @ [req])"

text \<open>\<^verbatim>\<open>response.raise_for_status()\<close>: an \<^verbatim>\<open>HTTPError\<close> for a status from 400 to 599.\<close>

definition raise_for_status :: "response \<Rightarrow> exn + unit" where
  "raise_for_status r =
     (if 400 \<le> status_code r \<and> status_code r < 600 then Inl (HTTPError r) else Inr ())"

section \<open>The hook\<close>

text \<open>
  \<^verbatim>\<open>__init__\<close> stores the token argument in \<^verbatim>\<open>self._token\<close> (here \<open>priv_token\<close>) and the
  connection id; \<open>token_cache\<close> is the slot in which \<^verbatim>\<open>cached_property\<close> keeps the value
  of \<^verbatim>\<open>self.token\<close> once the property has returned.
\<close>

record KakaoHook =
  priv_token :: "string option"
  kakao_conn_id :: "string option"
  token_cache :: "pyval option"

definition KakaoHook_init :: "string option \<Rightarrow> string option \<Rightarrow> KakaoHook" where
  "KakaoHook_init conn_id tok =
     \<lparr>priv_token = tok, kakao_conn_id = conn_id, token_cache = None\<rparr>"

definition token_url :: string where
  "token_url = ''https://kauth.kakao.com/oauth/token''"

definition send_me_url :: string where
  "send_me_url = ''https://kapi.kakao.com/v2/api/talk/memo/default/send''"

definition send_friend_url :: string where
  "send_friend_url = ''https://kapi.kakao.com/v1/api/talk/friends/message/default/send''"

subsection \<open>The token property\<close>

text \<open>The body of the \<^verbatim>\<open>try\<close> block of \<^verbatim>\<open>token\<close>: the POST, the status check, the parse
  of the body and the read of \<^verbatim>\<open>access_token\<close> (\<^verbatim>\<open>.get\<close> raises on a body that is not a
  dictionary).\<close>

definition token_try :: "env \<Rightarrow> request \<Rightarrow> request list \<Rightarrow> (exn + pyval) \<times> request list" where
  "token_try e req hist =
     (case requests_post e hist req of
        (TransportFailure m, hist') \<Rightarrow> (Inl (RequestException m), hist')
      | (Response r, hist') \<Rightarrow>
          (case raise_for_status r of
             Inl ex \<Rightarrow> (Inl ex, hist')
           | Inr _ \<Rightarrow>
               (case json r of
                  None \<Rightarrow> (Inl JSONDecodeError, hist')
                | Some tokens \<Rightarrow>
                    (case tokens of
                       PDict d \<Rightarrow>
                         (let new_access_token = dict_get d ''access_token'' in
                          if \<not> truthy new_access_token
                          then (Inl (AirflowException
                                  ''Token Refresh Failed: No access_token in response'' None), hist')
                          else (Inr new_access_token, hist'))
                     | _ \<Rightarrow> (Inl AttributeError, hist')))))"

text \<open>The request of the refresh; a truthy client secret is added to the form.\<close>

definition token_request :: "string \<Rightarrow> string \<Rightarrow> string option \<Rightarrow> request" where
  "token_request client_id refresh_token secret =
     \<lparr>url = token_url,
      headers = [(''Content-Type'', ''application/x-www-form-urlencoded;charset=utf-8'')],
      data = [(''grant_type'', ''refresh_token''),
              (''client_id'', client_id),
              (''refresh_token'', refresh_token)]
             @ (if str_truthy secret then [(''client_secret'', the secret)] else [])\<rparr>"

definition missing_credentials :: exn where
  "missing_credentials =
     AirflowException
       ''REST API Key (Login) or Refresh Token (Password) is missing in the Connection.'' None"

text \<open>The refresh: the part of \<^verbatim>\<open>token\<close> after the test of \<^verbatim>\<open>self._token\<close>. The lookup
  of the connection raises when the host knows no connection of that id. Every exception
  of the \<^verbatim>\<open>try\<close> block is caught and wrapped.\<close>

definition token_refresh :: "env \<Rightarrow> KakaoHook \<Rightarrow> request list \<Rightarrow> (exn + pyval) \<times> request list" where
  "token_refresh e self hist =
     (if \<not> str_truthy (kakao_conn_id self)
      then (Inl (AirflowException ''No valid Kakao connection supplied.'' None), hist)
      else
        (case get_connection e (the (kakao_conn_id self)) of
           None \<Rightarrow> (Inl (AirflowNotFoundException (the (kakao_conn_id self))), hist)
         | Some conn \<Rightarrow>
             if \<not> str_truthy (login conn) \<or> \<not> str_truthy (password conn)
             then (Inl missing_credentials, hist)
             else
               (case token_try e (token_request (the (login conn)) (the (password conn))
                                    (client_secret conn)) hist of
                  (Inl ex, hist') \<Rightarrow>
                    (Inl (AirflowException ''Kakao Token Refresh Error: '' (Some ex)), hist')
                | (Inr new_access_token, hist') \<Rightarrow> (Inr new_access_token, hist'))))"

text \<open>The body of the property: a truthy \<^verbatim>\<open>self._token\<close> is returned at once.\<close>

definition token_body :: "env \<Rightarrow> KakaoHook \<Rightarrow> request list \<Rightarrow> (exn + pyval) \<times> request list" where
  "token_body e self hist =
     (case priv_token self of
        None \<Rightarrow> token_refresh e self hist
      | Some t \<Rightarrow> if t \<noteq> [] then (Inr (PStr t), hist) else token_refresh e self hist)"

text \<open>Reading \<^verbatim>\<open>self.token\<close>: \<^verbatim>\<open>cached_property\<close> returns the cached value when there is
  one, and otherwise runs the body and caches what it returns; an exception caches
  nothing.\<close>

definition token :: "env \<Rightarrow> KakaoHook \<Rightarrow> request list \<Rightarrow> (exn + pyval) \<times> KakaoHook \<times> request list" where
  "token e self hist =
     (case token_cache self of
        Some t \<Rightarrow> (Inr t, self, hist)
      | None \<Rightarrow>
          (case token_body e self hist of
             (Inl ex, hist') \<Rightarrow> (Inl ex, self, hist')
           | (Inr t, hist') \<Rightarrow> (Inr t, self\<lparr>token_cache := Some t\<rparr>, hist')))"

subsection \<open>Building the payload\<close>

definition default_url :: string where
  "default_url = ''http://localhost:8080''"

definition invalid_message :: exn where
  "invalid_message =
     AirflowException ''message_args must contain 'text' or 'template_object'.'' None"

text \<open>
  The \<^verbatim>\<open>if\<close>/\<^verbatim>\<open>elif\<close>/\<^verbatim>\<open>else\<close> of \<^verbatim>\<open>send_message\<close> that builds \<^verbatim>\<open>payload\<close> from
  \<^verbatim>\<open>api_params\<close>. The parameter is a dictionary or \<^verbatim>\<open>None\<close> (its default); the test
  \<^verbatim>\<open>"template_object" in api_params\<close> raises \<^verbatim>\<open>TypeError\<close> on \<^verbatim>\<open>None\<close>. A dictionary is a
  map, and a key is in it when the map is defined there. \<^verbatim>\<open>json.loads\<close> is outside the
  \<^verbatim>\<open>try\<close> block, so its exception leaves the method as it is.
\<close>

definition build_payload :: "env \<Rightarrow> (string \<rightharpoonup> pyval) option \<Rightarrow> exn + pyval" where
  "build_payload e api_params =
     (case api_params of
        None \<Rightarrow> Inl TypeError
      | Some params \<Rightarrow>
          (case params ''template_object'' of
             Some payload \<Rightarrow>
               (case payload of
                  PStr s \<Rightarrow>
                    (case json_loads e s of
                       None \<Rightarrow> Inl JSONDecodeError
                     | Some parsed \<Rightarrow> Inr parsed)
                | _ \<Rightarrow> Inr payload)
           | None \<Rightarrow>
               (case params ''text'' of
                  Some text_value \<Rightarrow>
                    (let web_url = (case params ''web_url'' of
                                      None \<Rightarrow> PStr default_url | Some w \<Rightarrow> w);
                         mobile_web_url = (case params ''mobile_web_url'' of
                                      None \<Rightarrow> web_url | Some m \<Rightarrow> m)
                     in Inr (PDict [(''object_type'', PStr ''text''),
                                    (''text'', text_value),
                                    (''link'', PDict [(''web_url'', web_url),
                                                      (''mobile_web_url'', mobile_web_url)])]))
                | None \<Rightarrow> Inl invalid_message)))"

subsection \<open>Chunking the receivers\<close>

text \<open>\<^verbatim>\<open>range(start, stop, step)\<close> for a positive step, and the slice \<^verbatim>\<open>xs[i:j]\<close> for
  indices that are not negative.\<close>

function py_range :: "nat \<Rightarrow> nat \<Rightarrow> nat \<Rightarrow> nat list" where
  "py_range start stop step =
     (if step = 0 \<or> stop \<le> start then [] else start # py_range (start + step) stop step)"
  by pat_completeness auto
termination
  by (relation "measure (\<lambda>(start, stop, step). stop - start)") auto

declare py_range.simps [simp del]

definition py_slice :: "'a list \<Rightarrow> nat \<Rightarrow> nat \<Rightarrow> 'a list" where
  "py_slice xs i j = take (j - i) (drop i xs)"

definition chunk_size :: nat where
  "chunk_size = 5"

text \<open>The list comprehension
  \<^verbatim>\<open>[receiver_uuids[i : i + chunk_size] for i in range(0, total_receivers, chunk_size)]\<close>.\<close>

definition chunks :: "'a list \<Rightarrow> 'a list list" where
  "chunks receiver_uuids =
     (let total_receivers = length receiver_uuids
      in map (\<lambda>i. py_slice receiver_uuids i (i + chunk_size))
             (py_range 0 total_receivers chunk_size))"

subsection \<open>Sending\<close>

definition send_headers :: "env \<Rightarrow> pyval \<Rightarrow> (string \<times> string) list" where
  "send_headers e current_token =
     [(''Authorization'', ''Bearer '' @ fstr e current_token),
      (''Content-Type'', ''application/x-www-form-urlencoded'')]"

text \<open>
  The request of one chunk: the dictionary \<^verbatim>\<open>data\<close> is built first, \<^verbatim>\<open>json.dumps(chunk)\<close>
  and then \<^verbatim>\<open>json.dumps(payload)\<close>, and either call can raise before anything is posted;
  \<open>Inl\<close> is that exit. The request of the user's own chat has the payload only.
\<close>

definition friend_request ::
  "env \<Rightarrow> (string \<times> string) list \<Rightarrow> pyval \<Rightarrow> string list \<Rightarrow> exn + request" where
  "friend_request e hs payload chunk =
     (case json_dumps e (PList (map PStr chunk)) of
        Inl err \<Rightarrow> Inl (raise_dumps err)
      | Inr uuids_text \<Rightarrow>
          (case json_dumps e payload of
             Inl err \<Rightarrow> Inl (raise_dumps err)
           | Inr payload_text \<Rightarrow>
               Inr \<lparr>url = send_friend_url, headers = hs,
                    data = [(''receiver_uuids'', uuids_text),
                            (''template_object'', payload_text)]\<rparr>))"

definition me_request :: "env \<Rightarrow> (string \<times> string) list \<Rightarrow> pyval \<Rightarrow> exn + request" where
  "me_request e hs payload =
     (case json_dumps e payload of
        Inl err \<Rightarrow> Inl (raise_dumps err)
      | Inr payload_text \<Rightarrow>
          Inr \<lparr>url = send_me_url, headers = hs,
               data = [(''template_object'', payload_text)]\<rparr>)"

text \<open>
  The loop over the chunks. One round builds the data of the chunk (an exception of
  \<^verbatim>\<open>json.dumps\<close> leaves the loop before the POST), posts it, checks the status,
  parses the body, appends it to \<^verbatim>\<open>results\<close> and reads \<^verbatim>\<open>failure_info\<close> from it (\<^verbatim>\<open>.get\<close>
  raises on a body that is not a dictionary; a non-empty \<^verbatim>\<open>failure_info\<close> is only logged).
  Any exception ends the loop.
\<close>

fun send_chunks ::
  "env \<Rightarrow> (string \<times> string) list \<Rightarrow> pyval \<Rightarrow> string list list \<Rightarrow> pyval list \<Rightarrow> request list
     \<Rightarrow> (exn + pyval list) \<times> request list" where
  "send_chunks e hs payload [] results hist = (Inr results, hist)"
| "send_chunks e hs payload (chunk # rest) results hist =
     (case friend_request e hs payload chunk of
        Inl ex \<Rightarrow> (Inl ex, hist)
      | Inr req \<Rightarrow>
          (case requests_post e hist req of
             (TransportFailure m, hist') \<Rightarrow> (Inl (RequestException m), hist')
           | (Response r, hist') \<Rightarrow>
               (case raise_for_status r of
                  Inl ex \<Rightarrow> (Inl ex, hist')
                | Inr _ \<Rightarrow>
                    (case json r of
                       None \<Rightarrow> (Inl JSONDecodeError, hist')
                     | Some result \<Rightarrow>
                         (case result of
                            PDict d \<Rightarrow> send_chunks e hs payload rest (results @ [result]) hist'
                          | _ \<Rightarrow> (Inl AttributeError, hist'))))))"

text \<open>The \<^verbatim>\<open>else\<close> branch: the data is built, with the same exit of \<^verbatim>\<open>json.dumps\<close>, and
  posted once to the endpoint of the user's own chat.\<close>

definition send_me ::
  "env \<Rightarrow> (string \<times> string) list \<Rightarrow> pyval \<Rightarrow> pyval list \<Rightarrow> request list
     \<Rightarrow> (exn + pyval list) \<times> request list" where
  "send_me e hs payload results hist =
     (case me_request e hs payload of
        Inl ex \<Rightarrow> (Inl ex, hist)
      | Inr req \<Rightarrow>
          (case requests_post e hist req of
             (TransportFailure m, hist') \<Rightarrow> (Inl (RequestException m), hist')
           | (Response r, hist') \<Rightarrow>
               (case raise_for_status r of
                  Inl ex \<Rightarrow> (Inl ex, hist')
                | Inr _ \<Rightarrow>
                    (case json r of
                       None \<Rightarrow> (Inl JSONDecodeError, hist')
                     | Some result \<Rightarrow> (Inr (results @ [result]), hist')))))"

text \<open>The body of the \<^verbatim>\<open>try\<close> block: \<^verbatim>\<open>if receiver_uuids:\<close> is false for \<^verbatim>\<open>None\<close> and for
  the empty list.\<close>

definition send_try ::
  "env \<Rightarrow> (string \<times> string) list \<Rightarrow> pyval \<Rightarrow> string list option \<Rightarrow> request list
     \<Rightarrow> (exn + pyval list) \<times> request list" where
  "send_try e hs payload receiver_uuids hist =
     (case receiver_uuids of
        None \<Rightarrow> send_me e hs payload [] hist
      | Some rs \<Rightarrow>
          if rs \<noteq> [] then send_chunks e hs payload (chunks rs) [] hist
          else send_me e hs payload [] hist)"

text \<open>The handler \<^verbatim>\<open>except requests.exceptions.HTTPError as e\<close>: an \<^verbatim>\<open>HTTPError\<close> becomes
  an \<^verbatim>\<open>AirflowException\<close>, every other exception passes.\<close>

fun except_HTTPError :: "exn \<Rightarrow> exn" where
  "except_HTTPError (HTTPError r) =
     AirflowException ''KakaoTalk Send Error: '' (Some (HTTPError r))"
| "except_HTTPError ex = ex"

text \<open>\<^verbatim>\<open>send_message\<close>: the token is read first, then the payload is built, then the
  messages are sent.\<close>

definition send_message ::
  "env \<Rightarrow> KakaoHook \<Rightarrow> request list \<Rightarrow> string list option \<Rightarrow> (string \<rightharpoonup> pyval) option
     \<Rightarrow> (exn + pyval list) \<times> KakaoHook \<times> request list" where
  "send_message e self hist receiver_uuids api_params =
     (case token e self hist of
        (Inl ex, self', hist') \<Rightarrow> (Inl ex, self', hist')
      | (Inr current_token, self', hist') \<Rightarrow>
          (let hs = send_headers e current_token
           in case build_payload e api_params of
                Inl ex \<Rightarrow> (Inl ex, self', hist')
              | Inr payload \<Rightarrow>
                  (case send_try e hs payload receiver_uuids hist' of
                     (Inl ex, hist'') \<Rightarrow> (Inl (except_HTTPError ex), self', hist'')
                   | (Inr results, hist'') \<Rightarrow> (Inr results, self', hist''))))"

subsection \<open>Clients of the hook\<close>

text \<open>Reading \<^verbatim>\<open>self.token\<close> \<open>n\<close> times in a row, as straight-line code does: an exception
  ends the sequence.\<close>

fun token_reads ::
  "env \<Rightarrow> nat \<Rightarrow> KakaoHook \<Rightarrow> request list \<Rightarrow> (exn + pyval list) \<times> KakaoHook \<times> request list" where
  "token_reads e 0 self hist = (Inr [], self, hist)"
| "token_reads e (Suc n) self hist =
     (case token e self hist of
        (Inl ex, self', hist') \<Rightarrow> (Inl ex, self', hist')
      | (Inr t, self', hist') \<Rightarrow>
          (case token_reads e n self' hist' of
             (Inl ex, self'', hist'') \<Rightarrow> (Inl ex, self'', hist'')
           | (Inr ts, self'', hist'') \<Rightarrow> (Inr (t # ts), self'', hist'')))"

text \<open>Any number of calls of \<^verbatim>\<open>send_message\<close> on one hook, by a caller that goes on
  whatever each call returns or raises.\<close>

fun send_messages ::
  "env \<Rightarrow> KakaoHook \<Rightarrow> request list \<Rightarrow> (string list option \<times> (string \<rightharpoonup> pyval) option) list
     \<Rightarrow> KakaoHook \<times> request list" where
  "send_messages e self hist [] = (self, hist)"
| "send_messages e self hist (call # calls) =
     (case send_message e self hist (fst call) (snd call) of
        (_, self', hist') \<Rightarrow> send_messages e self' hist' calls)"

text \<open>Reading \<^verbatim>\<open>self.token\<close> \<open>n\<close> times by a caller that catches the exception of a read and
  reads again: the outcomes of the reads, oldest first.\<close>

fun token_retries ::
  "env \<Rightarrow> nat \<Rightarrow> KakaoHook \<Rightarrow> request list
     \<Rightarrow> (exn + pyval) list \<times> KakaoHook \<times> request list" where
  "token_retries e 0 self hist = ([], self, hist)"
| "token_retries e (Suc n) self hist =
     (case token e self hist of
        (outcome, self', hist') \<Rightarrow>
          (case token_retries e n self' hist' of
             (outcomes, self'', hist'') \<Rightarrow> (outcome # outcomes, self'', hist'')))"

text \<open>The requests that a dispatch with the given headers, payload and receivers sets out
  to issue, in order: one per chunk, or the single request of the user's own chat. The
  requests end before the first one whose data \<^verbatim>\<open>json.dumps\<close> refuses to write.\<close>

fun friend_requests ::
  "env \<Rightarrow> (string \<times> string) list \<Rightarrow> pyval \<Rightarrow> string list list \<Rightarrow> request list" where
  "friend_requests e hs payload [] = []"
| "friend_requests e hs payload (chunk # rest) =
     (case friend_request e hs payload chunk of
        Inl ex \<Rightarrow> []
      | Inr req \<Rightarrow> req # friend_requests e hs payload rest)"

definition me_requests :: "env \<Rightarrow> (string \<times> string) list \<Rightarrow> pyval \<Rightarrow> request list" where
  "me_requests e hs payload =
     (case me_request e hs payload of Inl ex \<Rightarrow> [] | Inr req \<Rightarrow> [req])"

definition planned ::
  "env \<Rightarrow> (string \<times> string) list \<Rightarrow> pyval \<Rightarrow> string list option \<Rightarrow> request list" where
  "planned e hs payload receiver_uuids =
     (case receiver_uuids of
        None \<Rightarrow> me_requests e hs payload
      | Some rs \<Rightarrow>
          if rs \<noteq> [] then friend_requests e hs payload (chunks rs)
          else me_requests e hs payload)"

text \<open>
  What it means that a dispatch which started with the requests \<open>hist\<close> behind it and set
  out to issue \<open>plan\<close> ended with the outcome \<open>out\<close> after \<open>k\<close> requests: the requests
  issued are the first \<open>k\<close> of the plan, in order and once each; a result means that the
  whole plan was issued; the first request of a plan is always issued; a request answered
  with a status from 400 to 599, or one that the transport failed, is the last one issued
  and decides the exception.
\<close>

definition ends_after ::
  "env \<Rightarrow> request list \<Rightarrow> request list \<Rightarrow> (exn + pyval list) \<times> request list \<Rightarrow> nat \<Rightarrow> bool" where
  "ends_after e hist plan out k \<longleftrightarrow>
     k \<le> length plan \<and> snd out = hist @ take k plan \<and>
     (\<forall>results. fst out = Inr results \<longrightarrow> k = length plan) \<and>
     (plan \<noteq> [] \<longrightarrow> 0 < k) \<and>
     (\<forall>i<k. \<forall>r. post e (hist @ take i plan) (plan ! i) = Response r
                 \<and> 400 \<le> status_code r \<and> status_code r < 600 \<longrightarrow>
               Suc i = k \<and> fst out = Inl (HTTPError r)) \<and>
     (\<forall>i<k. \<forall>m. post e (hist @ take i plan) (plan ! i) = TransportFailure m \<longrightarrow>
               Suc i = k \<and> fst out = Inl (RequestException m))"

section \<open>A concrete environment\<close>

text \<open>
  The environment of the examples. Its encoder \<open>dumps_checked\<close> refuses a value with a
  \<^verbatim>\<open>bytes\<close> object in it (\<open>json_able\<close> is false) and writes every other value as
  \<^verbatim>\<open>json.dumps\<close> does with its default arguments (\<open>json_text\<close>, which is read for such
  values only), and its \<open>py_repr\<close> writes as \<^verbatim>\<open>str()\<close> does, for values whose strings are
  printable ASCII without quotes and backslashes (no escape is written). Its decoder is a
  table of the documents the examples use; every other document, the empty one among them,
  is refused, as \<^verbatim>\<open>json.loads\<close> refuses the empty document.
\<close>

function decimal :: "nat \<Rightarrow> string" where
  "decimal n =
     (if n < 10 then [''0123456789'' ! n]
      else decimal (n div 10) @ [''0123456789'' ! (n mod 10)])"
  by pat_completeness auto
termination
  by (relation "measure id") auto

declare decimal.simps [simp del]

definition show_int :: "int \<Rightarrow> string" where
  "show_int i = (if i < 0 then ''-'' @ decimal (nat (- i)) else decimal (nat i))"

fun join :: "string \<Rightarrow> string list \<Rightarrow> string" where
  "join sep [] = []"
| "join sep [x] = x"
| "join sep (x # y # ys) = x @ sep @ join sep (y # ys)"

fun json_able :: "pyval \<Rightarrow> bool" where
  "json_able (PBytes b) = False"
| "json_able (PList xs) = list_all json_able xs"
| "json_able (PDict kvs) = list_all (\<lambda>kv. json_able (snd kv)) kvs"
| "json_able v = True"

fun json_text :: "pyval \<Rightarrow> string" where
  "json_text PNone = ''null''"
| "json_text (PBool b) = (if b then ''true'' else ''false'')"
| "json_text (PInt i) = show_int i"
| "json_text (PStr s) = [CHR 0x22] @ s @ [CHR 0x22]"
| "json_text (PBytes b) = []"
| "json_text (PList xs) = ''['' @ join '', '' (map json_text xs) @ '']''"
| "json_text (PDict kvs) =
     ''{'' @ join '', '' (map (\<lambda>kv. [CHR 0x22] @ fst kv @ [CHR 0x22] @ '': '' @ json_text (snd kv)) kvs)
     @ ''}''"

fun py_repr :: "pyval \<Rightarrow> string" where
  "py_repr PNone = ''None''"
| "py_repr (PBool b) = (if b then ''True'' else ''False'')"
| "py_repr (PInt i) = show_int i"
| "py_repr (PStr s) = [CHR 0x27] @ s @ [CHR 0x27]"
| "py_repr (PBytes b) = ''b'' @ [CHR 0x27] @ b @ [CHR 0x27]"
| "py_repr (PList xs) = ''['' @ join '', '' (map py_repr xs) @ '']''"
| "py_repr (PDict kvs) =
     ''{'' @ join '', '' (map (\<lambda>kv. [CHR 0x27] @ fst kv @ [CHR 0x27] @ '': '' @ py_repr (snd kv)) kvs)
     @ ''}''"

definition dumps_checked :: "pyval \<Rightarrow> dumps_error + string" where
  "dumps_checked v = (if json_able v then Inr (json_text v) else Inl NotSerializable)"

definition loads_table :: "string \<Rightarrow> pyval option" where
  "loads_table s =
     (if s = ''null'' then Some PNone
      else if s = ''{}'' then Some (PDict [])
      else if s = ''[1, 2]'' then Some (PList [PInt 1, PInt 2])
      else None)"

definition stored_connection :: connection where
  "stored_connection = \<lparr>login = Some ''id1'', password = Some ''refresh1'', client_secret = None\<rparr>"

definition ok_response :: "pyval \<Rightarrow> response" where
  "ok_response v = \<lparr>status_code = 200, body_text = json_text v, json = Some v\<rparr>"

definition error_response :: response where
  "error_response = \<lparr>status_code = 500, body_text = ''Internal Server Error'', json = None\<rparr>"

definition unauthorized_response :: response where
  "unauthorized_response = \<lparr>status_code = 401, body_text = ''Unauthorized'', json = None\<rparr>"

text \<open>Four networks. The first three answer the token endpoint with the access token
  \<^verbatim>\<open>tok1\<close>: the first accepts every message; the second refuses the connection of every
  send; the third accepts the first send and answers every later one with status 500. The
  fourth answers every request with status 401.\<close>

definition token_reply :: reply where
  "token_reply = Response (ok_response (PDict [(''access_token'', PStr ''tok1'')]))"

definition sent_reply :: reply where
  "sent_reply = Response (ok_response (PDict [(''result_code'', PInt 0)]))"

definition net_ok :: "request list \<Rightarrow> request \<Rightarrow> reply" where
  "net_ok hist req = (if url req = token_url then token_reply else sent_reply)"

definition net_refused :: "request list \<Rightarrow> request \<Rightarrow> reply" where
  "net_refused hist req =
     (if url req = token_url then token_reply else TransportFailure ''Connection refused'')"

definition net_second_500 :: "request list \<Rightarrow> request \<Rightarrow> reply" where
  "net_second_500 hist req =
     (if url req = token_url then token_reply
      else if list_all (\<lambda>r. url r = token_url) hist then sent_reply
      else Response error_response)"

definition net_unauthorized :: "request list \<Rightarrow> request \<Rightarrow> reply" where
  "net_unauthorized hist req = Response unauthorized_response"

definition world :: "(request list \<Rightarrow> request \<Rightarrow> reply) \<Rightarrow> env" where
  "world net =
     \<lparr>get_connection = (\<lambda>cid. if cid = ''kakao_default'' then Some stored_connection else None),
      post = net, json_loads = loads_table, json_dumps = dumps_checked, py_str = py_repr\<rparr>"

section \<open>The chunks of a list\<close>

lemma py_range_explicit:
  "0 < step \<Longrightarrow>
   py_range start stop step = map (\<lambda>k. start + k * step) [0..<(stop - start + step - 1) div step]"
proof (induction start stop step rule: py_range.induct)
  case (1 start stop step)
  show ?case
  proof (cases "stop \<le> start")
    case True
    then have "(stop - start + step - 1) div step = 0" using "1.prems" by simp
    with True show ?thesis by (simp add: py_range.simps)
  next
    case False
    let ?m = "(stop - (start + step) + step - 1) div step"
    have eq: "stop - start + step - 1 = (stop - (start + step) + step - 1) + step
              \<or> (stop - (start + step) + step - 1 = step - 1 \<and> stop - start + step - 1 = (stop - start - 1) + step \<and> stop - start - 1 < step)"
      using False "1.prems" by (cases "start + step \<le> stop") auto
    have cnt: "(stop - start + step - 1) div step = Suc ?m"
    proof -
      from eq show ?thesis
      proof
        assume a: "stop - start + step - 1 = (stop - (start + step) + step - 1) + step"
        show ?thesis unfolding a using "1.prems" by (simp only: div_add_self2)
      next
        assume b: "stop - (start + step) + step - 1 = step - 1 \<and> stop - start + step - 1 = (stop - start - 1) + step \<and> stop - start - 1 < step"
        have ne: "step \<noteq> 0" using "1.prems" by simp
        have "(stop - start - 1 + step) div step = (stop - start - 1) div step + 1"
          using ne by (rule div_add_self2)
        then have "(stop - start + step - 1) div step = Suc ((stop - start - 1) div step)"
          using b by simp
        moreover have "(stop - start - 1) div step = 0" using b by simp
        moreover have "?m = 0" using b "1.prems" by simp
        ultimately show ?thesis by simp
      qed
    qed
    have "py_range start stop step = start # py_range (start + step) stop step"
      using False "1.prems" by (simp add: py_range.simps [of start])
    also have "\<dots> = start # map (\<lambda>k. start + step + k * step) [0..<?m]"
      using "1.IH" False "1.prems" by simp
    also have "\<dots> = map (\<lambda>k. start + k * step) [0..<Suc ?m]"
      by (simp add: upt_conv_Cons map_Suc_upt [symmetric] o_def ac_simps del: upt_Suc)
    finally show ?thesis using cnt by simp
  qed
qed

lemma chunks_explicit:
  "chunks rs = map (\<lambda>k. take 5 (drop (5 * k) rs)) [0..<(length rs + 4) div 5]"
proof -
  have "py_range 0 (length rs) 5 = map (\<lambda>k. 0 + k * 5) [0..<(length rs - 0 + 5 - 1) div 5]"
    by (rule py_range_explicit) simp
  then have r: "py_range 0 (length rs) 5 = map (\<lambda>k. 5 * k) [0..<(length rs + 4) div 5]"
    by (simp add: mult.commute add.commute)
  show ?thesis
    unfolding chunks_def chunk_size_def Let_def r py_slice_def
    by (simp add: o_def)
qed








section \<open>Reading the token\<close>

lemma urls_distinct:
  "token_url \<noteq> send_me_url" "token_url \<noteq> send_friend_url" "send_me_url \<noteq> send_friend_url"
  by (simp_all add: token_url_def send_me_url_def send_friend_url_def)

lemma token_try_hist: "snd (token_try e req hist) = hist @ [req]"
  by (auto simp: token_try_def requests_post_def Let_def
      split: reply.splits sum.splits option.splits pyval.splits prod.splits)

lemma token_request_url: "url (token_request a b c) = token_url"
  by (simp add: token_request_def)

lemma token_refresh_hist:
  "snd (token_refresh e self hist) = hist \<or>
   (\<exists>req. url req = token_url \<and> snd (token_refresh e self hist) = hist @ [req])"
proof -
  have "snd (case token_try e req hist of
                  (Inl ex, hist') \<Rightarrow>
                    (Inl (AirflowException ''Kakao Token Refresh Error: '' (Some ex)), hist')
                | (Inr t, hist') \<Rightarrow> (Inr t, hist')) = hist @ [req]" for req
    using token_try_hist [of e req hist] by (auto split: prod.splits sum.splits)
  then show ?thesis
    using token_request_url by (auto simp: token_refresh_def split: option.splits)
qed

lemma token_refresh_Inr:
  assumes "token_refresh e self hist = (Inr t, hist')"
  shows "\<exists>req. url req = token_url \<and> hist' = hist @ [req]"
proof -
  from assms obtain conn :: connection where
    "token_try e (token_request (the (login conn)) (the (password conn)) (client_secret conn)) hist
       = (Inr t, hist')"
    by (auto simp: token_refresh_def split: option.splits if_splits prod.splits sum.splits)
  then show ?thesis using token_try_hist token_request_url by (metis snd_conv)
qed

lemma token_refresh_not_invalid: "fst (token_refresh e self hist) \<noteq> Inl invalid_message"
  by (auto simp: token_refresh_def invalid_message_def missing_credentials_def
      split: option.splits prod.splits sum.splits)

lemma token_cached: "token_cache self = Some t \<Longrightarrow> token e self hist = (Inr t, self, hist)"
  by (simp add: token_def)

lemma token_override:
  "token_cache self = None \<Longrightarrow> priv_token self = Some tok \<Longrightarrow> tok \<noteq> [] \<Longrightarrow>
   token e self hist = (Inr (PStr tok), self\<lparr>token_cache := Some (PStr tok)\<rparr>, hist)"
  by (simp add: token_def token_body_def)

lemma token_Inr:
  "token e self hist = (Inr t, self', hist') \<Longrightarrow>
   token_cache self' = Some t \<and> priv_token self' = priv_token self
   \<and> kakao_conn_id self' = kakao_conn_id self"
  by (auto simp: token_def split: option.splits prod.splits sum.splits)

lemma token_Inl:
  "token e self hist = (Inl ex, self', hist') \<Longrightarrow> self' = self \<and> ex \<noteq> invalid_message"
  using token_refresh_not_invalid [of e self hist]
  by (auto simp: token_def token_body_def split: option.splits prod.splits sum.splits if_splits)

lemma token_hist:
  "snd (snd (token e self hist)) = hist \<or>
   (\<exists>req. url req = token_url \<and> snd (snd (token e self hist)) = hist @ [req])"
  using token_refresh_hist [of e self hist]
  by (auto simp: token_def token_body_def split: option.splits prod.splits sum.splits if_splits)

lemma token_fresh_Inr:
  assumes "token_cache self = None" "priv_token self = None"
    and "token e self hist = (Inr t, self', hist')"
  shows "self' = self\<lparr>token_cache := Some t\<rparr> \<and> (\<exists>req. url req = token_url \<and> hist' = hist @ [req])"
proof -
  from assms have "token_refresh e self hist = (Inr t, hist')" "self' = self\<lparr>token_cache := Some t\<rparr>"
    by (auto simp: token_def token_body_def split: prod.splits sum.splits)
  then show ?thesis using token_refresh_Inr by blast
qed

lemma token_reads_cached:
  "token_cache self = Some t \<Longrightarrow> token_reads e n self hist = (Inr (replicate n t), self, hist)"
  by (induction n) (simp_all add: token_cached)

lemma token_reads_fresh:
  assumes "token_cache self = None" "priv_token self = None"
  shows "\<exists>reqs. snd (snd (token_reads e n self hist)) = hist @ reqs \<and> length reqs \<le> 1
           \<and> list_all (\<lambda>r. url r = token_url) reqs"
proof (cases n)
  case 0
  then show ?thesis by simp
next
  case (Suc m)
  obtain o1 self1 hist1 where tk: "token e self hist = (o1, self1, hist1)"
    by (cases "token e self hist")
  show ?thesis
  proof (cases o1)
    case (Inl ex)
    then have "snd (snd (token_reads e n self hist)) = hist1" by (simp add: Suc tk)
    moreover have "hist1 = hist \<or> (\<exists>req. url req = token_url \<and> hist1 = hist @ [req])"
      using token_hist [of e self hist] by (simp add: tk)
    ultimately show ?thesis by auto
  next
    case (Inr t)
    from token_fresh_Inr [OF assms tk [unfolded Inr]]
    obtain req where s1: "self1 = self\<lparr>token_cache := Some t\<rparr>"
      and req: "url req = token_url" "hist1 = hist @ [req]" by blast
    have "token_cache self1 = Some t" by (simp add: s1)
    then have "token_reads e m self1 hist1 = (Inr (replicate m t), self1, hist1)"
      by (rule token_reads_cached)
    then have "snd (snd (token_reads e n self hist)) = hist @ [req]"
      by (simp add: Suc tk Inr req)
    with req show ?thesis by auto
  qed
qed

lemma token_retries_cached:
  "token_cache self = Some t \<Longrightarrow> token_retries e n self hist = (replicate n (Inr t), self, hist)"
  by (induction n) (simp_all add: token_cached)

lemma token_retries_fresh:
  assumes "token_cache self = None" "priv_token self = None"
  shows "\<exists>reqs. snd (snd (token_retries e n self hist)) = hist @ reqs
           \<and> list_all (\<lambda>r. url r = token_url) reqs
           \<and> length reqs \<le> Suc (length (takeWhile isl (fst (token_retries e n self hist))))
           \<and> length reqs \<le> n"
proof (induction n arbitrary: hist)
  case 0
  show ?case by simp
next
  case (Suc n)
  obtain o1 self1 hist1 where tk: "token e self hist = (o1, self1, hist1)"
    by (cases "token e self hist")
  show ?case
  proof (cases o1)
    case (Inl ex)
    from token_Inl [of e self hist ex self1 hist1] tk Inl have s1: "self1 = self" by simp
    from token_hist [of e self hist] tk
    obtain first where first: "hist1 = hist @ first" "length first \<le> 1"
      "list_all (\<lambda>r. url r = token_url) first"
      by (auto intro: that [of "[]"] that [of "[_]"])
    from Suc.IH [of hist1]
    obtain reqs where reqs: "snd (snd (token_retries e n self hist1)) = hist1 @ reqs"
      "list_all (\<lambda>r. url r = token_url) reqs"
      "length reqs \<le> Suc (length (takeWhile isl (fst (token_retries e n self hist1))))"
      "length reqs \<le> n"
      by blast
    obtain outs self2 hist2 where rest: "token_retries e n self hist1 = (outs, self2, hist2)"
      by (cases "token_retries e n self hist1")
    have "snd (snd (token_retries e (Suc n) self hist)) = hist1 @ reqs"
      using reqs(1) by (simp add: tk s1 rest)
    then have "snd (snd (token_retries e (Suc n) self hist)) = hist @ (first @ reqs)"
      by (simp add: first(1))
    moreover have "list_all (\<lambda>r. url r = token_url) (first @ reqs)"
      using first(3) reqs(2) by simp
    moreover have "length (first @ reqs)
                     \<le> Suc (length (takeWhile isl (fst (token_retries e (Suc n) self hist))))"
      using first(2) reqs(3) by (simp add: tk s1 rest Inl)
    moreover have "length (first @ reqs) \<le> Suc n"
      using first(2) reqs(4) by simp
    ultimately show ?thesis by blast
  next
    case (Inr t)
    from token_fresh_Inr [OF assms tk [unfolded Inr]]
    obtain req where s1: "self1 = self\<lparr>token_cache := Some t\<rparr>"
      and req: "url req = token_url" "hist1 = hist @ [req]" by blast
    have "token_cache self1 = Some t" by (simp add: s1)
    then have "token_retries e n self1 hist1 = (replicate n (Inr t), self1, hist1)"
      by (rule token_retries_cached)
    then have "token_retries e (Suc n) self hist = (Inr t # replicate n (Inr t), self1, hist @ [req])"
      by (simp add: tk Inr req)
    with req(1) show ?thesis by (intro exI [of _ "[req]"]) simp
  qed
qed

section \<open>Sending the chunks\<close>






lemma send_chunks_refused:
  "friend_request e hs p c = Inl ex \<Longrightarrow> send_chunks e hs p (c # cs) results hist = (Inl ex, hist)"
  by simp

lemma send_chunks_step:
  assumes "friend_request e hs p c = Inr req"
  shows "(\<exists>r d. post e hist req = Response r
       \<and> \<not> (400 \<le> status_code r \<and> status_code r < 600)
       \<and> send_chunks e hs p (c # cs) results hist
           = send_chunks e hs p cs (results @ [PDict d]) (hist @ [req]))
   \<or> (\<exists>ex. send_chunks e hs p (c # cs) results hist = (Inl ex, hist @ [req])
       \<and> (\<forall>r. post e hist req = Response r
              \<and> 400 \<le> status_code r \<and> status_code r < 600 \<longrightarrow> ex = HTTPError r)
       \<and> (\<forall>m. post e hist req = TransportFailure m \<longrightarrow> ex = RequestException m))"
proof (cases "post e hist req")
  case (TransportFailure m)
  then show ?thesis by (simp add: assms requests_post_def)
next
  case (Response r)
  show ?thesis
  proof (cases "400 \<le> status_code r \<and> status_code r < 600")
    case True
    with Response show ?thesis by (simp add: assms requests_post_def raise_for_status_def)
  next
    case False
    show ?thesis
    proof (cases "json r")
      case None
      with Response False show ?thesis by (simp add: assms requests_post_def raise_for_status_def)
    next
      case (Some v)
      with Response False show ?thesis
        by (cases v) (auto simp: assms requests_post_def raise_for_status_def)
    qed
  qed
qed

lemma ends_after_stop:
  assumes "out = (Inl ex, hist @ [req])"
    and "\<forall>r. post e hist req = Response r \<and> 400 \<le> status_code r \<and> status_code r < 600
           \<longrightarrow> ex = HTTPError r"
    and "\<forall>m. post e hist req = TransportFailure m \<longrightarrow> ex = RequestException m"
  shows "ends_after e hist (req # plan) out 1"
  using assms by (simp add: ends_after_def)

lemma ends_after_refused: "ends_after e hist [] (Inl ex, hist) 0"
  by (simp add: ends_after_def)

lemma ends_afterD:
  assumes "ends_after e hist plan out k"
  shows "k \<le> length plan"
    and "snd out = hist @ take k plan"
    and "\<And>results. fst out = Inr results \<Longrightarrow> k = length plan"
    and "plan \<noteq> [] \<Longrightarrow> 0 < k"
    and "\<And>i r. i < k \<Longrightarrow> post e (hist @ take i plan) (plan ! i) = Response r \<Longrightarrow>
            400 \<le> status_code r \<Longrightarrow> status_code r < 600 \<Longrightarrow>
            Suc i = k \<and> fst out = Inl (HTTPError r)"
    and "\<And>i m. i < k \<Longrightarrow> post e (hist @ take i plan) (plan ! i) = TransportFailure m \<Longrightarrow>
            Suc i = k \<and> fst out = Inl (RequestException m)"
  using assms unfolding ends_after_def by blast+

lemma ends_afterI:
  assumes "k \<le> length plan"
    and "snd out = hist @ take k plan"
    and "\<And>results. fst out = Inr results \<Longrightarrow> k = length plan"
    and "plan \<noteq> [] \<Longrightarrow> 0 < k"
    and "\<And>i r. i < k \<Longrightarrow> post e (hist @ take i plan) (plan ! i) = Response r \<Longrightarrow>
            400 \<le> status_code r \<Longrightarrow> status_code r < 600 \<Longrightarrow>
            Suc i = k \<and> fst out = Inl (HTTPError r)"
    and "\<And>i m. i < k \<Longrightarrow> post e (hist @ take i plan) (plan ! i) = TransportFailure m \<Longrightarrow>
            Suc i = k \<and> fst out = Inl (RequestException m)"
  shows "ends_after e hist plan out k"
  unfolding ends_after_def using assms by blast

lemma ends_after_go:
  assumes ok: "post e hist req = Response r" "\<not> (400 \<le> status_code r \<and> status_code r < 600)"
    and rest: "ends_after e (hist @ [req]) plan out k"
  shows "ends_after e hist (req # plan) out (Suc k)"
proof (rule ends_afterI)
  show "Suc k \<le> length (req # plan)" using ends_afterD(1) [OF rest] by simp
  show "snd out = hist @ take (Suc k) (req # plan)" using ends_afterD(2) [OF rest] by simp
  show "Suc k = length (req # plan)" if "fst out = Inr results" for results
    using ends_afterD(3) [OF rest that] by simp
  show "0 < Suc k" by simp
  show "Suc i = Suc k \<and> fst out = Inl (HTTPError r')"
    if "i < Suc k" "post e (hist @ take i (req # plan)) ((req # plan) ! i) = Response r'"
      "400 \<le> status_code r'" "status_code r' < 600" for i r'
  proof (cases i)
    case 0
    with that ok show ?thesis by simp
  next
    case (Suc j)
    with that have "j < k" "post e ((hist @ [req]) @ take j plan) (plan ! j) = Response r'" by simp_all
    from ends_afterD(5) [OF rest this that(3,4)] Suc show ?thesis by simp
  qed
  show "Suc i = Suc k \<and> fst out = Inl (RequestException m)"
    if "i < Suc k" "post e (hist @ take i (req # plan)) ((req # plan) ! i) = TransportFailure m" for i m
  proof (cases i)
    case 0
    with that ok show ?thesis by simp
  next
    case (Suc j)
    with that have "j < k" "post e ((hist @ [req]) @ take j plan) (plan ! j) = TransportFailure m" by simp_all
    from ends_afterD(6) [OF rest this] Suc show ?thesis by simp
  qed
qed



lemma send_chunks_ends:
  "\<exists>k. ends_after e hist (friend_requests e hs p cs) (send_chunks e hs p cs results hist) k"
proof (induction cs arbitrary: results hist)
  case Nil
  show ?case by (simp add: ends_after_def)
next
  case (Cons c cs)
  show ?case
  proof (cases "friend_request e hs p c")
    case (Inl ex)
    then have "friend_requests e hs p (c # cs) = []"
      and "send_chunks e hs p (c # cs) results hist = (Inl ex, hist)" by simp_all
    then show ?thesis using ends_after_refused [of e hist ex] by auto
  next
    case (Inr req)
    then have plan: "friend_requests e hs p (c # cs) = req # friend_requests e hs p cs" by simp
    from send_chunks_step [OF Inr, of hist cs results]
    consider
      (go) r d where "post e hist req = Response r"
        "\<not> (400 \<le> status_code r \<and> status_code r < 600)"
        "send_chunks e hs p (c # cs) results hist
           = send_chunks e hs p cs (results @ [PDict d]) (hist @ [req])"
    | (stop) ex where "send_chunks e hs p (c # cs) results hist = (Inl ex, hist @ [req])"
        "\<forall>r. post e hist req = Response r \<and> 400 \<le> status_code r \<and> status_code r < 600 \<longrightarrow> ex = HTTPError r"
        "\<forall>m. post e hist req = TransportFailure m \<longrightarrow> ex = RequestException m"
      by blast
    then show ?thesis
    proof cases
      case stop
      then have "ends_after e hist (req # friend_requests e hs p cs)
                   (send_chunks e hs p (c # cs) results hist) 1"
        by (rule ends_after_stop)
      then show ?thesis unfolding plan by (rule exI)
    next
      case go
      from Cons.IH [of "hist @ [req]" "results @ [PDict d]"]
      obtain k where "ends_after e (hist @ [req]) (friend_requests e hs p cs)
                        (send_chunks e hs p cs (results @ [PDict d]) (hist @ [req])) k" ..
      then have "ends_after e hist (req # friend_requests e hs p cs)
                   (send_chunks e hs p cs (results @ [PDict d]) (hist @ [req])) (Suc k)"
        by (rule ends_after_go [OF go(1) go(2)])
      then have "ends_after e hist (req # friend_requests e hs p cs)
                   (send_chunks e hs p (c # cs) results hist) (Suc k)"
        by (simp only: go(3))
      then show ?thesis unfolding plan by (rule exI)
    qed
  qed
qed

section \<open>Dispatch\<close>

lemma me_request_InrD:
  assumes "me_request e hs p = Inr req"
  shows "\<exists>payload_text. json_dumps e p = Inr payload_text
           \<and> req = \<lparr>url = send_me_url, headers = hs, data = [(''template_object'', payload_text)]\<rparr>"
  using assms by (auto simp add: me_request_def split: sum.splits)

lemma send_me_refused:
  "me_request e hs p = Inl ex \<Longrightarrow> send_me e hs p results hist = (Inl ex, hist)"
  by (simp add: send_me_def)

lemma send_me_cases:
  assumes "me_request e hs p = Inr req"
  shows "(\<exists>r j. post e hist req = Response r
       \<and> \<not> (400 \<le> status_code r \<and> status_code r < 600) \<and> json r = Some j
       \<and> send_me e hs p results hist = (Inr (results @ [j]), hist @ [req]))
   \<or> (\<exists>ex. send_me e hs p results hist = (Inl ex, hist @ [req])
       \<and> (\<forall>r. post e hist req = Response r
              \<and> 400 \<le> status_code r \<and> status_code r < 600 \<longrightarrow> ex = HTTPError r)
       \<and> (\<forall>m. post e hist req = TransportFailure m \<longrightarrow> ex = RequestException m))"
proof (cases "post e hist req")
  case (TransportFailure m)
  then show ?thesis by (simp add: assms send_me_def requests_post_def)
next
  case (Response r)
  show ?thesis
  proof (cases "400 \<le> status_code r \<and> status_code r < 600")
    case True
    with Response show ?thesis by (simp add: assms send_me_def requests_post_def raise_for_status_def)
  next
    case False
    with Response show ?thesis
      by (cases "json r") (auto simp: assms send_me_def requests_post_def raise_for_status_def)
  qed
qed

lemma send_me_hist:
  "me_request e hs p = Inr req \<Longrightarrow> snd (send_me e hs p results hist) = hist @ [req]"
  using send_me_cases [of e hs p req hist results] by auto

lemma send_me_ends:
  "\<exists>k. ends_after e hist (me_requests e hs p) (send_me e hs p results hist) k"
proof (cases "me_request e hs p")
  case (Inl ex)
  then have "me_requests e hs p = []" and "send_me e hs p results hist = (Inl ex, hist)"
    by (simp_all add: me_requests_def send_me_def)
  then show ?thesis using ends_after_refused [of e hist ex] by auto
next
  case (Inr req)
  then have plan: "me_requests e hs p = [req]" by (simp add: me_requests_def)
  from send_me_cases [OF Inr, of hist results]
  consider
    (ok) r j where "post e hist req = Response r"
      "\<not> (400 \<le> status_code r \<and> status_code r < 600)"
      "send_me e hs p results hist = (Inr (results @ [j]), hist @ [req])"
  | (stop) ex where "send_me e hs p results hist = (Inl ex, hist @ [req])"
      "\<forall>r. post e hist req = Response r
              \<and> 400 \<le> status_code r \<and> status_code r < 600 \<longrightarrow> ex = HTTPError r"
      "\<forall>m. post e hist req = TransportFailure m \<longrightarrow> ex = RequestException m"
    by blast
  then have "ends_after e hist [req] (send_me e hs p results hist) 1"
  proof cases
    case ok
    then show ?thesis by (intro ends_afterI) simp_all
  next
    case stop
    then show ?thesis by (rule ends_after_stop)
  qed
  then show ?thesis unfolding plan by (rule exI)
qed

lemma send_try_ends:
  "\<exists>k. ends_after e hist (planned e hs p receiver_uuids) (send_try e hs p receiver_uuids hist) k"
proof (cases "\<exists>rs. receiver_uuids = Some rs \<and> rs \<noteq> []")
  case True
  then obtain rs where "receiver_uuids = Some rs" "rs \<noteq> []" by blast
  then have "planned e hs p receiver_uuids = friend_requests e hs p (chunks rs)"
    "send_try e hs p receiver_uuids hist = send_chunks e hs p (chunks rs) [] hist"
    by (simp_all add: planned_def send_try_def)
  then show ?thesis using send_chunks_ends [of e hist hs p "chunks rs" "[]"] by simp
next
  case False
  then have "planned e hs p receiver_uuids = me_requests e hs p"
    "send_try e hs p receiver_uuids hist = send_me e hs p [] hist"
    by (auto simp: planned_def send_try_def split: option.splits)
  then show ?thesis using send_me_ends [of e hist hs p "[]"] by auto
qed

lemma send_message_resolved:
  assumes "token e self hist = (Inr t, self1, hist1)" and "build_payload e api_params = Inr payload"
  shows "send_message e self hist receiver_uuids api_params =
           (case send_try e (send_headers e t) payload receiver_uuids hist1 of
              (Inl ex, hist2) \<Rightarrow> (Inl (except_HTTPError ex), self1, hist2)
            | (Inr results, hist2) \<Rightarrow> (Inr results, self1, hist2))"
  using assms by (simp add: send_message_def Let_def)


lemma send_message_payload_failed:
  assumes "token e self hist = (Inr t, self1, hist1)" and "build_payload e api_params = Inl ex"
  shows "send_message e self hist receiver_uuids api_params = (Inl ex, self1, hist1)"
  using assms by (simp add: send_message_def Let_def)

lemma send_me_ok:
  assumes "me_request e hs p = Inr req" and "post e hist req = Response r"
    and "\<not> (400 \<le> status_code r \<and> status_code r < 600)" and "json r = Some j"
  shows "send_me e hs p results hist = (Inr (results @ [j]), hist @ [req])"
  using assms by (simp add: send_me_def requests_post_def raise_for_status_def)

lemma send_me_Inr:
  assumes "fst (send_me e hs p results hist) = Inr res"
  shows "\<exists>j. res = results @ [j]"
proof (cases "me_request e hs p")
  case (Inl ex)
  with assms show ?thesis by (simp add: send_me_def)
next
  case (Inr req)
  with assms send_me_cases [OF Inr, of hist results] show ?thesis by auto
qed

subsection \<open>A hook with a token of its own\<close>

lemma friend_requests_props:
  "list_all (\<lambda>r. url r = send_friend_url \<and> headers r = hs
                 \<and> (\<exists>payload_text. json_dumps e p = Inr payload_text
                       \<and> map_of (data r) ''template_object'' = Some payload_text))
     (friend_requests e hs p cs)"
  by (induction cs) (auto simp add: friend_request_def split: sum.splits)

lemma me_requests_props:
  "list_all (\<lambda>r. url r = send_me_url \<and> headers r = hs
                 \<and> (\<exists>payload_text. json_dumps e p = Inr payload_text
                       \<and> map_of (data r) ''template_object'' = Some payload_text))
     (me_requests e hs p)"
  by (auto simp add: me_requests_def me_request_def split: sum.splits)

lemma planned_props:
  "list_all (\<lambda>r. url r \<noteq> token_url \<and> headers r = hs
                 \<and> (\<exists>payload_text. json_dumps e p = Inr payload_text
                       \<and> map_of (data r) ''template_object'' = Some payload_text))
     (planned e hs p receiver_uuids)"
proof -
  have "list_all (\<lambda>r. url r \<noteq> token_url \<and> headers r = hs
                 \<and> (\<exists>payload_text. json_dumps e p = Inr payload_text
                       \<and> map_of (data r) ''template_object'' = Some payload_text)) (friend_requests e hs p cs)" for cs
    using friend_requests_props [of hs e p cs] urls_distinct by (simp add: list_all_iff)
  moreover have "list_all (\<lambda>r. url r \<noteq> token_url \<and> headers r = hs
                 \<and> (\<exists>payload_text. json_dumps e p = Inr payload_text
                       \<and> map_of (data r) ''template_object'' = Some payload_text)) (me_requests e hs p)"
    using me_requests_props [of hs e p] urls_distinct by (simp add: list_all_iff)
  ultimately show ?thesis by (simp add: planned_def split: option.splits)
qed

lemma planned_urls: "list_all (\<lambda>r. url r \<noteq> token_url) (planned e hs p receiver_uuids)"
  using planned_props [of hs e p receiver_uuids] by (simp add: list_all_iff)

lemma send_try_token_calls:
  "filter (\<lambda>r. url r = token_url) (snd (send_try e hs p receiver_uuids hist)) =
   filter (\<lambda>r. url r = token_url) hist"
proof -
  obtain k where k: "ends_after e hist (planned e hs p receiver_uuids)
                       (send_try e hs p receiver_uuids hist) k"
    using send_try_ends [of e hist hs p receiver_uuids] ..
  have "set (take k (planned e hs p receiver_uuids)) \<subseteq> set (planned e hs p receiver_uuids)"
    by (rule set_take_subset)
  with planned_urls [of e hs p receiver_uuids]
  have "filter (\<lambda>r. url r = token_url) (take k (planned e hs p receiver_uuids)) = []"
    by (auto simp add: list_all_iff filter_empty_conv)
  with ends_afterD(2) [OF k] show ?thesis by simp
qed

lemma token_with_override:
  assumes "priv_token self = Some tok" "tok \<noteq> []"
    and "token_cache self = None \<or> token_cache self = Some (PStr tok)"
  shows "token e self hist = (Inr (PStr tok), self\<lparr>token_cache := Some (PStr tok)\<rparr>, hist)"
  using assms by (auto simp add: token_def token_body_def)

lemma send_message_with_override:
  assumes "priv_token self = Some tok" "tok \<noteq> []"
    and "token_cache self = None \<or> token_cache self = Some (PStr tok)"
  shows "fst (snd (send_message e self hist receiver_uuids api_params)) =
           self\<lparr>token_cache := Some (PStr tok)\<rparr>
         \<and> filter (\<lambda>r. url r = token_url) (snd (snd (send_message e self hist receiver_uuids api_params)))
             = filter (\<lambda>r. url r = token_url) hist"
proof (cases "build_payload e api_params")
  case (Inl ex)
  show ?thesis
    by (simp add: send_message_payload_failed [OF token_with_override [OF assms] Inl])
next
  case (Inr payload)
  let ?out = "send_try e (send_headers e (PStr tok)) payload receiver_uuids hist"
  obtain o1 h2 where out: "?out = (o1, h2)" by (cases ?out)
  have "filter (\<lambda>r. url r = token_url) h2 = filter (\<lambda>r. url r = token_url) hist"
    using send_try_token_calls [of e "send_headers e (PStr tok)" payload receiver_uuids hist]
    by (simp add: out)
  then show ?thesis
    by (cases o1) (simp_all add: send_message_resolved [OF token_with_override [OF assms] Inr] out)
qed

lemma send_messages_with_override:
  assumes "priv_token self = Some tok" "tok \<noteq> []"
    and "token_cache self = None \<or> token_cache self = Some (PStr tok)"
  shows "priv_token (fst (send_messages e self hist calls)) = Some tok
         \<and> kakao_conn_id (fst (send_messages e self hist calls)) = kakao_conn_id self
         \<and> (token_cache (fst (send_messages e self hist calls)) = None
            \<or> token_cache (fst (send_messages e self hist calls)) = Some (PStr tok))
         \<and> filter (\<lambda>r. url r = token_url) (snd (send_messages e self hist calls))
             = filter (\<lambda>r. url r = token_url) hist"
  using assms
proof (induction calls arbitrary: self hist)
  case Nil
  then show ?case by simp
next
  case (Cons call calls)
  obtain o1 self1 hist1 where sm: "send_message e self hist (fst call) (snd call) = (o1, self1, hist1)"
    by (cases "send_message e self hist (fst call) (snd call)")
  from send_message_with_override [OF Cons.prems, of e hist "fst call" "snd call"]
  have s1: "self1 = self\<lparr>token_cache := Some (PStr tok)\<rparr>"
    and h1: "filter (\<lambda>r. url r = token_url) hist1 = filter (\<lambda>r. url r = token_url) hist"
    by (simp_all add: sm)
  have p1: "priv_token self1 = Some tok" using Cons.prems(1) by (simp add: s1)
  have c1: "token_cache self1 = None \<or> token_cache self1 = Some (PStr tok)" by (simp add: s1)
  from Cons.IH [OF p1 Cons.prems(2) c1, of hist1]
  show ?case by (simp add: sm h1 s1)
qed

subsection \<open>What a send can raise, and what it always issues\<close>









lemma send_me_refused_dumps:
  assumes "json_dumps e p = Inl err"
  shows "send_me e hs p results hist = (Inl (raise_dumps err), hist)"
  using assms by (simp add: send_me_def me_request_def)

section \<open>Evaluation in the concrete environment\<close>

lemmas hook_defs =
  send_message_def token_def token_body_def token_refresh_def token_try_def token_request_def
  build_payload_def send_try_def send_me_def me_request_def friend_request_def send_headers_def
  requests_post_def raise_for_status_def KakaoHook_init_def fstr_def dict_get_def
  invalid_message_def missing_credentials_def default_url_def planned_def me_requests_def

lemmas world_defs =
  world_def net_ok_def net_refused_def net_second_500_def token_reply_def sent_reply_def
  ok_response_def error_response_def stored_connection_def loads_table_def
  token_url_def send_me_url_def send_friend_url_def dumps_checked_def net_unauthorized_def
  unauthorized_response_def

section \<open>The payload\<close>

text \<open>
  C5. For every \<^verbatim>\<open>api_params\<close> that has the key \<^verbatim>\<open>text\<close> and not the key
  \<^verbatim>\<open>template_object\<close>, the payload built is
  \<^verbatim>\<open>{object_type: "text", text: <the text>, link: {web_url: w, mobile_web_url: m}}\<close>, where
  \<open>w\<close> is \<^verbatim>\<open>api_params['web_url']\<close> when that key is present and the placeholder
  \<^verbatim>\<open>http://localhost:8080\<close> otherwise, and \<open>m\<close> is \<^verbatim>\<open>api_params['mobile_web_url']\<close> when that
  key is present and \<open>w\<close> otherwise.
\<close>

theorem text_payload:
  assumes "params ''template_object'' = None" and "params ''text'' = Some text_value"
  shows "build_payload e (Some params) =
           Inr (PDict [(''object_type'', PStr ''text''),
                       (''text'', text_value),
                       (''link'', PDict
                          [(''web_url'',
                              case params ''web_url'' of
                                None \<Rightarrow> PStr ''http://localhost:8080'' | Some w \<Rightarrow> w),
                           (''mobile_web_url'',
                              case params ''mobile_web_url'' of
                                None \<Rightarrow> (case params ''web_url'' of
                                           None \<Rightarrow> PStr ''http://localhost:8080'' | Some w \<Rightarrow> w)
                              | Some m \<Rightarrow> m)])])"
  using assms unfolding build_payload_def default_url_def Let_def by simp

text \<open>The parameters \<^verbatim>\<open>{"text": "hello"}\<close> give both links the placeholder.\<close>

theorem text_payload_witness:
  "[''text'' \<mapsto> PStr ''hello''] ''template_object'' = None \<and>
   [''text'' \<mapsto> PStr ''hello''] ''text'' = Some (PStr ''hello'') \<and>
   build_payload (world net_ok) (Some [''text'' \<mapsto> PStr ''hello'']) =
     Inr (PDict [(''object_type'', PStr ''text''),
                 (''text'', PStr ''hello''),
                 (''link'', PDict [(''web_url'', PStr ''http://localhost:8080''),
                                   (''mobile_web_url'', PStr ''http://localhost:8080'')])])"
proof -
  have h1: "[''text'' \<mapsto> PStr ''hello''] ''template_object'' = None" by simp
  have h2: "[''text'' \<mapsto> PStr ''hello''] ''text'' = Some (PStr ''hello'')" by simp
  from text_payload [where params = "[''text'' \<mapsto> PStr ''hello'']" and e = "world net_ok", OF h1 h2]
    h1 h2 show ?thesis by simp
qed

text \<open>
  C6. For every \<^verbatim>\<open>api_params\<close> that has the key \<^verbatim>\<open>template_object\<close>, its value is the payload
  of the message, whether or not \<^verbatim>\<open>text\<close> is given too: a string is parsed with
  \<^verbatim>\<open>json.loads\<close> first (the parse error leaves the method when the string is not JSON),
  every other value is used as it is. The payload is what \<^verbatim>\<open>send_message\<close> hands to the
  dispatch once the token is resolved.
\<close>

theorem template_object_payload:
  assumes "params ''template_object'' = Some v"
  shows "build_payload e (Some params) =
           (case v of
              PStr s \<Rightarrow> (case json_loads e s of
                           None \<Rightarrow> Inl JSONDecodeError | Some parsed \<Rightarrow> Inr parsed)
            | _ \<Rightarrow> Inr v)
         \<and> build_payload e (Some (params(''text'' := text_entry))) = build_payload e (Some params)
         \<and> (\<forall>t self1 hist1 payload.
              token e self hist = (Inr t, self1, hist1) \<and> build_payload e (Some params) = Inr payload
              \<longrightarrow> send_message e self hist receiver_uuids (Some params) =
                    (case send_try e (send_headers e t) payload receiver_uuids hist1 of
                       (Inl ex, hist2) \<Rightarrow> (Inl (except_HTTPError ex), self1, hist2)
                     | (Inr results, hist2) \<Rightarrow> (Inr results, self1, hist2)))"
proof (intro conjI allI impI)
  show "build_payload e (Some params) =
           (case v of
              PStr s \<Rightarrow> (case json_loads e s of
                           None \<Rightarrow> Inl JSONDecodeError | Some parsed \<Rightarrow> Inr parsed)
            | _ \<Rightarrow> Inr v)"
    using assms by (cases v) (simp_all add: build_payload_def)
  show "build_payload e (Some (params(''text'' := text_entry))) = build_payload e (Some params)"
    using assms by (simp add: build_payload_def)
next
  fix t self1 hist1 payload
  assume "token e self hist = (Inr t, self1, hist1) \<and> build_payload e (Some params) = Inr payload"
  then show "send_message e self hist receiver_uuids (Some params) =
                    (case send_try e (send_headers e t) payload receiver_uuids hist1 of
                       (Inl ex, hist2) \<Rightarrow> (Inl (except_HTTPError ex), self1, hist2)
                     | (Inr results, hist2) \<Rightarrow> (Inr results, self1, hist2))"
    by (simp add: send_message_resolved)
qed

text \<open>A JSON string is parsed, with or without \<^verbatim>\<open>text\<close> beside it; a structured object is
  kept; the parsed template is what the request to the user's own chat carries.\<close>

theorem template_object_payload_witness:
  "[''template_object'' \<mapsto> PStr ''[1, 2]''] ''template_object'' = Some (PStr ''[1, 2]'') \<and>
   build_payload (world net_ok) (Some [''template_object'' \<mapsto> PStr ''[1, 2]'']) =
     Inr (PList [PInt 1, PInt 2]) \<and>
   build_payload (world net_ok)
     (Some [''template_object'' \<mapsto> PStr ''[1, 2]'', ''text'' \<mapsto> PStr ''hi'']) =
     Inr (PList [PInt 1, PInt 2]) \<and>
   build_payload (world net_ok)
     (Some [''template_object'' \<mapsto> PDict [(''object_type'', PStr ''feed'')]]) =
     Inr (PDict [(''object_type'', PStr ''feed'')]) \<and>
   token (world net_ok) (KakaoHook_init None (Some ''tok'')) [] =
     (Inr (PStr ''tok''),
      \<lparr>priv_token = Some ''tok'', kakao_conn_id = None, token_cache = Some (PStr ''tok'')\<rparr>, []) \<and>
   send_message (world net_ok) (KakaoHook_init None (Some ''tok'')) [] None
       (Some [''template_object'' \<mapsto> PStr ''[1, 2]'']) =
     (Inr [PDict [(''result_code'', PInt 0)]],
      \<lparr>priv_token = Some ''tok'', kakao_conn_id = None, token_cache = Some (PStr ''tok'')\<rparr>,
      [\<lparr>url = send_me_url,
        headers = [(''Authorization'', ''Bearer tok''),
                   (''Content-Type'', ''application/x-www-form-urlencoded'')],
        data = [(''template_object'', ''[1, 2]'')]\<rparr>])"
proof -
  have h: "[''template_object'' \<mapsto> PStr ''[1, 2]''] ''template_object'' = Some (PStr ''[1, 2]'')"
    by simp
  from template_object_payload
         [where params = "[''template_object'' \<mapsto> PStr ''[1, 2]'']" and e = "world net_ok"
            and self = "KakaoHook_init None (Some ''tok'')" and hist = "[]"
            and receiver_uuids = None and text_entry = "Some (PStr ''hi'')", OF h]
  show ?thesis
    by (simp add: hook_defs world_defs show_int_def decimal.simps)
qed

section \<open>Absent parameters\<close>

text \<open>
  C9. A call of \<^verbatim>\<open>send_message\<close> with \<^verbatim>\<open>api_params\<close> absent (\<^verbatim>\<open>None\<close>, its default) reads
  the token first; an exception of that read leaves the method, and otherwise the key test on
  \<^verbatim>\<open>None\<close> raises \<^verbatim>\<open>TypeError\<close>, which is not the exception of a message without content. No
  message is sent, but the requests of the token read have been issued by then.
\<close>

theorem absent_params_TypeError:
  "send_message e self hist receiver_uuids None =
     (case token e self hist of
        (Inl ex, self1, hist1) \<Rightarrow> (Inl ex, self1, hist1)
      | (Inr t, self1, hist1) \<Rightarrow> (Inl TypeError, self1, hist1))
   \<and> TypeError \<noteq> invalid_message"
  by (simp add: send_message_def build_payload_def invalid_message_def
      split: prod.splits sum.splits)

text \<open>On a hook without a token of its own, the refresh request is issued before the
  \<^verbatim>\<open>TypeError\<close>.\<close>

theorem absent_params_TypeError_witness:
  "send_message (world net_ok) (KakaoHook_init (Some ''kakao_default'') None) [] None None =
     (Inl TypeError,
      \<lparr>priv_token = None, kakao_conn_id = Some ''kakao_default'',
       token_cache = Some (PStr ''tok1'')\<rparr>,
      [\<lparr>url = token_url,
        headers = [(''Content-Type'', ''application/x-www-form-urlencoded;charset=utf-8'')],
        data = [(''grant_type'', ''refresh_token''), (''client_id'', ''id1''),
                (''refresh_token'', ''refresh1'')]\<rparr>])"
  using absent_params_TypeError
          [of "world net_ok" "KakaoHook_init (Some ''kakao_default'') None" "[]" None]
  by (simp add: hook_defs world_defs)

section \<open>Sending to the user's own chat\<close>

text \<open>
  C8. For every call of \<^verbatim>\<open>send_message\<close> with \<^verbatim>\<open>receiver_uuids\<close> absent or empty, in which the
  token is resolved and the payload is built: when \<^verbatim>\<open>json.dumps\<close> writes the payload, exactly
  one request is issued after the token read, a POST to the endpoint of the user's own chat
  carrying the JSON text of the payload and the header \<^verbatim>\<open>Authorization: Bearer <token>\<close>,
  and when its reply has a status outside 400 to 599 and a JSON body, the result is the list
  of that one body; when \<^verbatim>\<open>json.dumps\<close> refuses the payload, its exception (\<^verbatim>\<open>TypeError\<close> for a
  value that is not JSON) leaves the method and no request is issued. Every result has
  exactly one element.
\<close>

theorem self_send_single_post:
  assumes "receiver_uuids = None \<or> receiver_uuids = Some []"
    and "token e self hist = (Inr t, self1, hist1)"
    and "build_payload e api_params = Inr payload"
  shows "(\<forall>payload_text. json_dumps e payload = Inr payload_text \<longrightarrow>
            snd (snd (send_message e self hist receiver_uuids api_params)) =
              hist1 @ [\<lparr>url = send_me_url,
                        headers = [(''Authorization'', ''Bearer '' @ fstr e t),
                                   (''Content-Type'', ''application/x-www-form-urlencoded'')],
                        data = [(''template_object'', payload_text)]\<rparr>]
            \<and> (\<forall>r j. post e hist1
                         \<lparr>url = send_me_url,
                          headers = [(''Authorization'', ''Bearer '' @ fstr e t),
                                     (''Content-Type'', ''application/x-www-form-urlencoded'')],
                          data = [(''template_object'', payload_text)]\<rparr> = Response r
                       \<and> \<not> (400 \<le> status_code r \<and> status_code r < 600) \<and> json r = Some j
                     \<longrightarrow> fst (send_message e self hist receiver_uuids api_params) = Inr [j]))
         \<and> (\<forall>err. json_dumps e payload = Inl err \<longrightarrow>
               send_message e self hist receiver_uuids api_params =
                 (Inl (raise_dumps err), self1, hist1))
         \<and> raise_dumps NotSerializable = TypeError
         \<and> (\<forall>results. fst (send_message e self hist receiver_uuids api_params) = Inr results
               \<longrightarrow> (\<exists>j. results = [j]))"
proof -
  let ?hs = "send_headers e t"
  let ?out = "send_me e ?hs payload [] hist1"
  let ?res = "send_message e self hist receiver_uuids api_params"
  have tr: "send_try e ?hs payload receiver_uuids hist1 = ?out"
    using assms(1) by (auto simp add: send_try_def)
  have sm: "?res = (case ?out of
                      (Inl ex, hist2) \<Rightarrow> (Inl (except_HTTPError ex), self1, hist2)
                    | (Inr results, hist2) \<Rightarrow> (Inr results, self1, hist2))"
    using send_message_resolved [OF assms(2) assms(3), of receiver_uuids] tr by simp
  obtain o1 h2 where out: "?out = (o1, h2)" by (cases ?out)
  have hist: "snd (snd ?res) = snd ?out"
    unfolding sm out by (cases o1) simp_all
  have a: "snd (snd ?res) =
              hist1 @ [\<lparr>url = send_me_url,
                        headers = [(''Authorization'', ''Bearer '' @ fstr e t),
                                   (''Content-Type'', ''application/x-www-form-urlencoded'')],
                        data = [(''template_object'', payload_text)]\<rparr>]
            \<and> (\<forall>r j. post e hist1
                         \<lparr>url = send_me_url,
                          headers = [(''Authorization'', ''Bearer '' @ fstr e t),
                                     (''Content-Type'', ''application/x-www-form-urlencoded'')],
                          data = [(''template_object'', payload_text)]\<rparr> = Response r
                       \<and> \<not> (400 \<le> status_code r \<and> status_code r < 600) \<and> json r = Some j
                     \<longrightarrow> fst ?res = Inr [j])"
    if dumps: "json_dumps e payload = Inr payload_text" for payload_text
  proof -
    let ?req = "\<lparr>url = send_me_url,
                  headers = [(''Authorization'', ''Bearer '' @ fstr e t),
                             (''Content-Type'', ''application/x-www-form-urlencoded'')],
                  data = [(''template_object'', payload_text)]\<rparr>"
    have me: "me_request e ?hs payload = Inr ?req"
      using dumps by (simp add: me_request_def send_headers_def)
    have "snd (snd ?res) = hist1 @ [?req]"
      using send_me_hist [OF me, of "[]" hist1] hist by simp
    moreover have "fst ?res = Inr [j]"
      if "post e hist1 ?req = Response r" "\<not> (400 \<le> status_code r \<and> status_code r < 600)"
        "json r = Some j" for r j
      using send_me_ok [OF me that, of "[]"] by (simp add: sm)
    ultimately show ?thesis by blast
  qed
  have b: "?res = (Inl (raise_dumps err), self1, hist1)" if "json_dumps e payload = Inl err" for err
    using send_me_refused_dumps [OF that, of ?hs "[]" hist1] by (cases err) (simp_all add: sm)
  have c: "\<exists>j. results = [j]" if "fst ?res = Inr results" for results
  proof -
    from that have "fst ?out = Inr results"
      unfolding sm out by (cases o1) simp_all
    from send_me_Inr [OF this] show ?thesis by simp
  qed
  from a b c show ?thesis by (simp only: raise_dumps.simps simp_thms) blast
qed

text \<open>The scenario of a stored connection \<^verbatim>\<open>id1\<close>/\<^verbatim>\<open>refresh1\<close>, the access token \<^verbatim>\<open>tok1\<close>
  and the text \<^verbatim>\<open>hi\<close>: two requests, the refresh and the message, and a result of one
  element.\<close>

theorem self_send_single_post_witness:
  "token (world net_ok) (KakaoHook_init (Some ''kakao_default'') None) [] =
     (Inr (PStr ''tok1''),
      \<lparr>priv_token = None, kakao_conn_id = Some ''kakao_default'',
       token_cache = Some (PStr ''tok1'')\<rparr>,
      [token_request ''id1'' ''refresh1'' None]) \<and>
   build_payload (world net_ok) (Some [''text'' \<mapsto> PStr ''hi'']) =
     Inr (PDict [(''object_type'', PStr ''text''), (''text'', PStr ''hi''),
                 (''link'', PDict [(''web_url'', PStr ''http://localhost:8080''),
                                   (''mobile_web_url'', PStr ''http://localhost:8080'')])]) \<and>
   json_dumps (world net_ok)
     (PDict [(''object_type'', PStr ''text''), (''text'', PStr ''hi''),
             (''link'', PDict [(''web_url'', PStr ''http://localhost:8080''),
                               (''mobile_web_url'', PStr ''http://localhost:8080'')])]) =
     Inr (json_text (PDict [(''object_type'', PStr ''text''), (''text'', PStr ''hi''),
            (''link'', PDict [(''web_url'', PStr ''http://localhost:8080''),
                              (''mobile_web_url'', PStr ''http://localhost:8080'')])])) \<and>
   snd (snd (send_message (world net_ok) (KakaoHook_init (Some ''kakao_default'') None) [] None
               (Some [''text'' \<mapsto> PStr ''hi'']))) =
     [token_request ''id1'' ''refresh1'' None,
      \<lparr>url = ''https://kapi.kakao.com/v2/api/talk/memo/default/send'',
       headers = [(''Authorization'', ''Bearer tok1''),
                  (''Content-Type'', ''application/x-www-form-urlencoded'')],
       data = [(''template_object'',
                json_text (PDict [(''object_type'', PStr ''text''), (''text'', PStr ''hi''),
                  (''link'', PDict [(''web_url'', PStr ''http://localhost:8080''),
                                    (''mobile_web_url'', PStr ''http://localhost:8080'')])]))]\<rparr>] \<and>
   fst (send_message (world net_ok) (KakaoHook_init (Some ''kakao_default'') None) [] None
          (Some [''text'' \<mapsto> PStr ''hi''])) = Inr [PDict [(''result_code'', PInt 0)]]"
proof -
  let ?e = "world net_ok"
  let ?self = "KakaoHook_init (Some ''kakao_default'') None"
  let ?params = "Some [''text'' \<mapsto> PStr ''hi'']"
  have h1: "(None :: string list option) = None \<or> (None :: string list option) = Some []" by simp
  have h2: "token ?e ?self [] =
     (Inr (PStr ''tok1''),
      \<lparr>priv_token = None, kakao_conn_id = Some ''kakao_default'',
       token_cache = Some (PStr ''tok1'')\<rparr>,
      [token_request ''id1'' ''refresh1'' None])"
    by (simp add: hook_defs world_defs Let_def)
  have h3: "build_payload ?e ?params =
     Inr (PDict [(''object_type'', PStr ''text''), (''text'', PStr ''hi''),
                 (''link'', PDict [(''web_url'', PStr ''http://localhost:8080''),
                                   (''mobile_web_url'', PStr ''http://localhost:8080'')])])"
    by (simp add: hook_defs Let_def)
  from self_send_single_post [where e = ?e and self = ?self and hist = "[]"
      and receiver_uuids = None and api_params = ?params, OF h1 h2 h3] h2 h3
  show ?thesis by (simp add: hook_defs world_defs Let_def)
qed

text \<open>The text \<^verbatim>\<open>b''\<close>, a \<^verbatim>\<open>bytes\<close> object: the payload is built, \<^verbatim>\<open>json.dumps\<close> refuses it, and
  no request is issued.\<close>

theorem bytes_text_not_posted:
  "build_payload (world net_ok) (Some [''text'' \<mapsto> PBytes []]) =
     Inr (PDict [(''object_type'', PStr ''text''), (''text'', PBytes []),
                 (''link'', PDict [(''web_url'', PStr ''http://localhost:8080''),
                                   (''mobile_web_url'', PStr ''http://localhost:8080'')])]) \<and>
   send_message (world net_ok) (KakaoHook_init None (Some ''tok'')) [] None
       (Some [''text'' \<mapsto> PBytes []]) =
     (Inl TypeError,
      \<lparr>priv_token = Some ''tok'', kakao_conn_id = None, token_cache = Some (PStr ''tok'')\<rparr>, [])"
  by (simp add: hook_defs world_defs Let_def)

section \<open>Sending to a list of receivers\<close>



section \<open>Failures of a send\<close>

text \<open>
  C4. For every call of \<^verbatim>\<open>send_message\<close> in which the token is resolved and the payload is
  built, the requests issued after the token read are the first \<open>k\<close> of the planned ones (the
  request of the user's own chat, or one request per chunk, as far as \<^verbatim>\<open>json.dumps\<close> writes
  their data), in order and once each: nothing is sent again and nothing is taken back. A request answered with a status from 400 to 599
  is the last one issued, and the call fails with the \<^verbatim>\<open>AirflowException\<close>
  \<^verbatim>\<open>KakaoTalk Send Error: ...\<close> made from that \<^verbatim>\<open>HTTPError\<close>. A request that the transport
  fails is the last one issued too, but its exception leaves the method as it is: the handler
  catches \<^verbatim>\<open>requests.exceptions.HTTPError\<close> only.
\<close>

theorem send_failure_stops:
  assumes "token e self hist = (Inr t, self1, hist1)"
    and "build_payload e api_params = Inr payload"
  shows "\<exists>k. k \<le> length (planned e (send_headers e t) payload receiver_uuids)
           \<and> snd (snd (send_message e self hist receiver_uuids api_params)) =
               hist1 @ take k (planned e (send_headers e t) payload receiver_uuids)
           \<and> (\<forall>i<k. \<forall>r.
                 post e (hist1 @ take i (planned e (send_headers e t) payload receiver_uuids))
                   (planned e (send_headers e t) payload receiver_uuids ! i) = Response r
                 \<and> 400 \<le> status_code r \<and> status_code r < 600 \<longrightarrow>
                 Suc i = k
                 \<and> fst (send_message e self hist receiver_uuids api_params) =
                     Inl (AirflowException ''KakaoTalk Send Error: '' (Some (HTTPError r))))
           \<and> (\<forall>i<k. \<forall>m.
                 post e (hist1 @ take i (planned e (send_headers e t) payload receiver_uuids))
                   (planned e (send_headers e t) payload receiver_uuids ! i) = TransportFailure m \<longrightarrow>
                 Suc i = k
                 \<and> fst (send_message e self hist receiver_uuids api_params) =
                     Inl (RequestException m))"
proof -
  let ?plan = "planned e (send_headers e t) payload receiver_uuids"
  let ?out = "send_try e (send_headers e t) payload receiver_uuids hist1"
  let ?res = "send_message e self hist receiver_uuids api_params"
  have sm: "?res = (case ?out of
                      (Inl ex, hist2) \<Rightarrow> (Inl (except_HTTPError ex), self1, hist2)
                    | (Inr results, hist2) \<Rightarrow> (Inr results, self1, hist2))"
    using send_message_resolved [OF assms] .
  obtain k where k: "ends_after e hist1 ?plan ?out k"
    using send_try_ends [of e hist1 "send_headers e t" payload receiver_uuids] ..
  obtain o1 h2 where out: "?out = (o1, h2)" by (cases ?out)
  have hist: "snd (snd ?res) = snd ?out"
    unfolding sm out by (cases o1) simp_all
  have http: "fst ?res = Inl (AirflowException ''KakaoTalk Send Error: '' (Some (HTTPError r)))"
    if "fst ?out = Inl (HTTPError r)" for r
    using that unfolding sm out by simp
  have transport: "fst ?res = Inl (RequestException m)"
    if "fst ?out = Inl (RequestException m)" for m
    using that unfolding sm out by simp
  have a: "k \<le> length ?plan" using ends_afterD(1) [OF k] .
  have b: "snd (snd ?res) = hist1 @ take k ?plan" using ends_afterD(2) [OF k] hist by simp
  have c: "\<forall>i<k. \<forall>r. post e (hist1 @ take i ?plan) (?plan ! i) = Response r
                 \<and> 400 \<le> status_code r \<and> status_code r < 600 \<longrightarrow>
                 Suc i = k
                 \<and> fst ?res = Inl (AirflowException ''KakaoTalk Send Error: '' (Some (HTTPError r)))"
    using ends_afterD(5) [OF k] http by blast
  have d: "\<forall>i<k. \<forall>m. post e (hist1 @ take i ?plan) (?plan ! i) = TransportFailure m \<longrightarrow>
                 Suc i = k \<and> fst ?res = Inl (RequestException m)"
    using ends_afterD(6) [OF k] transport by blast
  from a b c d show ?thesis by blast
qed

text \<open>Eleven receivers on a network that answers the second send with status 500: the
  third chunk is never sent.\<close>

theorem send_failure_stops_witness:
  "token (world net_second_500) (KakaoHook_init None (Some ''tok'')) [] =
     (Inr (PStr ''tok''),
      \<lparr>priv_token = Some ''tok'', kakao_conn_id = None, token_cache = Some (PStr ''tok'')\<rparr>, []) \<and>
   build_payload (world net_second_500) (Some [''template_object'' \<mapsto> PDict []]) = Inr (PDict []) \<and>
   planned (world net_second_500) (send_headers (world net_second_500) (PStr ''tok'')) (PDict [])
       (Some [''u1'', ''u2'', ''u3'', ''u4'', ''u5'', ''u6'', ''u7'', ''u8'', ''u9'', ''u10'', ''u11'']) =
     [\<lparr>url = send_friend_url,
       headers = [(''Authorization'', ''Bearer tok''),
                  (''Content-Type'', ''application/x-www-form-urlencoded'')],
       data = [(''receiver_uuids'',
                json_text (PList [PStr ''u1'', PStr ''u2'', PStr ''u3'', PStr ''u4'', PStr ''u5''])),
               (''template_object'', ''{}'')]\<rparr>,
      \<lparr>url = send_friend_url,
       headers = [(''Authorization'', ''Bearer tok''),
                  (''Content-Type'', ''application/x-www-form-urlencoded'')],
       data = [(''receiver_uuids'',
                json_text (PList [PStr ''u6'', PStr ''u7'', PStr ''u8'', PStr ''u9'', PStr ''u10''])),
               (''template_object'', ''{}'')]\<rparr>,
      \<lparr>url = send_friend_url,
       headers = [(''Authorization'', ''Bearer tok''),
                  (''Content-Type'', ''application/x-www-form-urlencoded'')],
       data = [(''receiver_uuids'', json_text (PList [PStr ''u11''])),
               (''template_object'', ''{}'')]\<rparr>] \<and>
   send_message (world net_second_500) (KakaoHook_init None (Some ''tok'')) []
       (Some [''u1'', ''u2'', ''u3'', ''u4'', ''u5'', ''u6'', ''u7'', ''u8'', ''u9'', ''u10'', ''u11''])
       (Some [''template_object'' \<mapsto> PDict []]) =
     (Inl (AirflowException ''KakaoTalk Send Error: '' (Some (HTTPError error_response))),
      \<lparr>priv_token = Some ''tok'', kakao_conn_id = None, token_cache = Some (PStr ''tok'')\<rparr>,
      [\<lparr>url = send_friend_url,
        headers = [(''Authorization'', ''Bearer tok''),
                   (''Content-Type'', ''application/x-www-form-urlencoded'')],
        data = [(''receiver_uuids'',
                 json_text (PList [PStr ''u1'', PStr ''u2'', PStr ''u3'', PStr ''u4'', PStr ''u5''])),
                (''template_object'', ''{}'')]\<rparr>,
       \<lparr>url = send_friend_url,
        headers = [(''Authorization'', ''Bearer tok''),
                   (''Content-Type'', ''application/x-www-form-urlencoded'')],
        data = [(''receiver_uuids'',
                 json_text (PList [PStr ''u6'', PStr ''u7'', PStr ''u8'', PStr ''u9'', PStr ''u10''])),
                (''template_object'', ''{}'')]\<rparr>])"
proof -
  let ?rs = "[''u1'', ''u2'', ''u3'', ''u4'', ''u5'', ''u6'', ''u7'', ''u8'', ''u9'', ''u10'', ''u11'']"
  let ?e = "world net_second_500"
  let ?self = "KakaoHook_init None (Some ''tok'')"
  let ?params = "Some [''template_object'' \<mapsto> PDict []]"
  have ch: "chunks ?rs = [[''u1'', ''u2'', ''u3'', ''u4'', ''u5''],
                          [''u6'', ''u7'', ''u8'', ''u9'', ''u10''], [''u11'']]"
    by (simp add: chunks_explicit upt_rec)
  have h1: "token ?e ?self [] =
     (Inr (PStr ''tok''),
      \<lparr>priv_token = Some ''tok'', kakao_conn_id = None, token_cache = Some (PStr ''tok'')\<rparr>, [])"
    by (simp add: hook_defs)
  have h2: "build_payload ?e ?params = Inr (PDict [])"
    by (simp add: hook_defs)
  from send_failure_stops [where e = ?e and self = ?self and hist = "[]"
      and api_params = ?params and receiver_uuids = "Some ?rs", OF h1 h2] h1 h2
  show ?thesis by (simp add: hook_defs world_defs Let_def ch)
qed

text \<open>A refused connection of the send to the user's own chat reaches the caller as the
  exception of the transport, not as an \<^verbatim>\<open>AirflowException\<close>.\<close>

theorem transport_error_not_wrapped:
  "post (world net_refused) []
     \<lparr>url = send_me_url,
      headers = [(''Authorization'', ''Bearer tok''),
                 (''Content-Type'', ''application/x-www-form-urlencoded'')],
      data = [(''template_object'', ''{}'')]\<rparr> = TransportFailure ''Connection refused'' \<and>
   send_message (world net_refused) (KakaoHook_init None (Some ''tok'')) [] None
       (Some [''template_object'' \<mapsto> PDict []]) =
     (Inl (RequestException ''Connection refused''),
      \<lparr>priv_token = Some ''tok'', kakao_conn_id = None, token_cache = Some (PStr ''tok'')\<rparr>,
      [\<lparr>url = send_me_url,
        headers = [(''Authorization'', ''Bearer tok''),
                   (''Content-Type'', ''application/x-www-form-urlencoded'')],
        data = [(''template_object'', ''{}'')]\<rparr>])"
  by (simp add: hook_defs world_defs Let_def)

section \<open>Parameters without content\<close>

text \<open>
  C1. For every \<^verbatim>\<open>api_params\<close> with neither the key \<^verbatim>\<open>text\<close> nor the key \<^verbatim>\<open>template_object\<close>,
  the payload is refused with the exception \<^verbatim>\<open>message_args must contain 'text' or
  'template_object'.\<close>, and \<^verbatim>\<open>send_message\<close> issues no request of its own: the hook and the
  requests issued are those of the token read, which comes first. When the token is resolved
  the call fails with that exception; when the token read fails, with the exception of the
  read. With a cached token or a non-empty token of the hook's own no request is issued at
  all; in every case at most one request is issued, and it goes to the token endpoint.
\<close>

theorem no_content_after_token:
  assumes "params ''text'' = None" and "params ''template_object'' = None"
  shows "build_payload e (Some params) = Inl invalid_message
         \<and> snd (send_message e self hist receiver_uuids (Some params)) = snd (token e self hist)
         \<and> (\<forall>t. fst (token e self hist) = Inr t \<longrightarrow>
               fst (send_message e self hist receiver_uuids (Some params)) = Inl invalid_message)
         \<and> (\<forall>ex. fst (token e self hist) = Inl ex \<longrightarrow>
               fst (send_message e self hist receiver_uuids (Some params)) = Inl ex)
         \<and> (token_cache self \<noteq> None \<or> str_truthy (priv_token self) \<longrightarrow>
               send_message e self hist receiver_uuids (Some params) =
                 (Inl invalid_message,
                  self\<lparr>token_cache := Some (case token_cache self of
                                               Some t \<Rightarrow> t | None \<Rightarrow> PStr (the (priv_token self)))\<rparr>,
                  hist))
         \<and> (snd (snd (send_message e self hist receiver_uuids (Some params))) = hist
            \<or> (\<exists>req. url req = token_url
                  \<and> snd (snd (send_message e self hist receiver_uuids (Some params))) = hist @ [req]))"
proof -
  have bp: "build_payload e (Some params) = Inl invalid_message"
    using assms by (simp add: build_payload_def)
  obtain o1 self1 hist1 where tk: "token e self hist = (o1, self1, hist1)"
    by (cases "token e self hist")
  have sm: "send_message e self hist receiver_uuids (Some params) =
              (case o1 of Inl ex \<Rightarrow> (Inl ex, self1, hist1)
                        | Inr t \<Rightarrow> (Inl invalid_message, self1, hist1))"
    by (cases o1) (simp_all add: send_message_def tk bp)
  have a: "snd (send_message e self hist receiver_uuids (Some params)) = snd (token e self hist)"
    unfolding sm tk by (cases o1) simp_all
  have b: "\<forall>t. fst (token e self hist) = Inr t \<longrightarrow>
               fst (send_message e self hist receiver_uuids (Some params)) = Inl invalid_message"
    unfolding sm tk by simp
  have c: "\<forall>ex. fst (token e self hist) = Inl ex \<longrightarrow>
               fst (send_message e self hist receiver_uuids (Some params)) = Inl ex"
    unfolding sm tk by simp
  have d: "send_message e self hist receiver_uuids (Some params) =
                 (Inl invalid_message,
                  self\<lparr>token_cache := Some (case token_cache self of
                                               Some t \<Rightarrow> t | None \<Rightarrow> PStr (the (priv_token self)))\<rparr>,
                  hist)"
    if "token_cache self \<noteq> None \<or> str_truthy (priv_token self)"
  proof (cases "token_cache self")
    case (Some t)
    then show ?thesis by (simp add: send_message_def token_cached [OF Some] bp)
  next
    case None
    with that obtain tok where tok: "priv_token self = Some tok" "tok \<noteq> []"
      by (cases "priv_token self") auto
    show ?thesis
      by (simp add: send_message_def token_override [OF None tok] bp None tok)
  qed
  have f: "snd (snd (send_message e self hist receiver_uuids (Some params))) = hist
            \<or> (\<exists>req. url req = token_url
                  \<and> snd (snd (send_message e self hist receiver_uuids (Some params))) = hist @ [req])"
    using token_hist [of e self hist] by (simp only: a)
  from bp a b c d f show ?thesis by blast
qed

text \<open>The empty dictionary on a hook with a token of its own: the exception and no request.
  On a hook whose connection is unknown, the exception of the token read.\<close>

theorem no_content_after_token_witness:
  "Map.empty ''text'' = (None :: pyval option) \<and> Map.empty ''template_object'' = (None :: pyval option) \<and>
   build_payload (world net_ok) (Some Map.empty) = Inl invalid_message \<and>
   send_message (world net_ok) (KakaoHook_init None (Some ''tok'')) [] None (Some Map.empty) =
     (Inl invalid_message,
      \<lparr>priv_token = Some ''tok'', kakao_conn_id = None, token_cache = Some (PStr ''tok'')\<rparr>, []) \<and>
   send_message (world net_ok) (KakaoHook_init (Some ''nowhere'') None) [] None (Some Map.empty) =
     (Inl (AirflowNotFoundException ''nowhere''), KakaoHook_init (Some ''nowhere'') None, [])"
proof -
  have h1: "Map.empty ''text'' = (None :: pyval option)" by simp
  have h2: "Map.empty ''template_object'' = (None :: pyval option)" by simp
  from no_content_after_token [where params = Map.empty and e = "world net_ok"
      and self = "KakaoHook_init None (Some ''tok'')" and hist = "[]" and receiver_uuids = None,
      OF h1 h2]
  show ?thesis by (simp add: hook_defs world_defs Let_def)
qed

text \<open>The empty dictionary on a hook that has to refresh: the request to the token endpoint
  is issued before the parameters are refused.\<close>

theorem token_refresh_before_validation:
  "send_message (world net_ok) (KakaoHook_init (Some ''kakao_default'') None) [] None
       (Some Map.empty) =
     (Inl invalid_message,
      \<lparr>priv_token = None, kakao_conn_id = Some ''kakao_default'',
       token_cache = Some (PStr ''tok1'')\<rparr>,
      [\<lparr>url = token_url,
        headers = [(''Content-Type'', ''application/x-www-form-urlencoded;charset=utf-8'')],
        data = [(''grant_type'', ''refresh_token''), (''client_id'', ''id1''),
                (''refresh_token'', ''refresh1'')]\<rparr>])"
  by (simp add: hook_defs world_defs Let_def)

section \<open>Caching of the token\<close>

text \<open>
  C3. For every hook constructed without a token of its own: a read of \<^verbatim>\<open>self.token\<close> that
  fails leaves the hook as it was, with nothing cached, and has issued at most one request,
  to the token endpoint; the first read that returns has issued exactly one POST to the token
  endpoint and has cached the access token, and every read after it, by whatever caller,
  returns the cached token and issues nothing. So reads in a row that end at the first
  failure issue at most one request, to the token endpoint; and reads by a caller that reads
  again after a failure issue requests to the token endpoint only, at most one for each
  failed read before the first read that returns and one for that read.
\<close>

theorem token_cached_after_success:
  "(\<exists>reqs. snd (snd (token_reads e n (KakaoHook_init cid None) hist)) = hist @ reqs
       \<and> length reqs \<le> 1 \<and> list_all (\<lambda>r. url r = token_url) reqs)
   \<and> (\<exists>reqs. snd (snd (token_retries e n (KakaoHook_init cid None) hist)) = hist @ reqs
         \<and> list_all (\<lambda>r. url r = token_url) reqs
         \<and> length reqs
             \<le> Suc (length (takeWhile isl (fst (token_retries e n (KakaoHook_init cid None) hist))))
         \<and> length reqs \<le> n)
   \<and> (\<forall>ex self1 hist1. token e (KakaoHook_init cid None) hist = (Inl ex, self1, hist1) \<longrightarrow>
         self1 = KakaoHook_init cid None
         \<and> (hist1 = hist \<or> (\<exists>req. url req = token_url \<and> hist1 = hist @ [req])))
   \<and> (\<forall>t self1 hist1. token e (KakaoHook_init cid None) hist = (Inr t, self1, hist1) \<longrightarrow>
         (\<exists>req. url req = token_url \<and> hist1 = hist @ [req])
         \<and> self1 = (KakaoHook_init cid None)\<lparr>token_cache := Some t\<rparr>
         \<and> (\<forall>later. token e self1 later = (Inr t, self1, later))
         \<and> (\<forall>m later. token_reads e m self1 later = (Inr (replicate m t), self1, later))
         \<and> (\<forall>m later. token_retries e m self1 later = (replicate m (Inr t), self1, later)))"
proof (intro conjI allI impI)
  have fresh: "token_cache (KakaoHook_init cid None) = None" "priv_token (KakaoHook_init cid None) = None"
    by (simp_all add: KakaoHook_init_def)
  show "\<exists>reqs. snd (snd (token_reads e n (KakaoHook_init cid None) hist)) = hist @ reqs
       \<and> length reqs \<le> 1 \<and> list_all (\<lambda>r. url r = token_url) reqs"
    using fresh by (rule token_reads_fresh)
  show "\<exists>reqs. snd (snd (token_retries e n (KakaoHook_init cid None) hist)) = hist @ reqs
         \<and> list_all (\<lambda>r. url r = token_url) reqs
         \<and> length reqs
             \<le> Suc (length (takeWhile isl (fst (token_retries e n (KakaoHook_init cid None) hist))))
         \<and> length reqs \<le> n"
    using fresh by (rule token_retries_fresh)
  {
    fix ex self1 hist1
    assume tk: "token e (KakaoHook_init cid None) hist = (Inl ex, self1, hist1)"
    from token_Inl [OF tk] show "self1 = KakaoHook_init cid None" by simp
    from token_hist [of e "KakaoHook_init cid None" hist]
    show "hist1 = hist \<or> (\<exists>req. url req = token_url \<and> hist1 = hist @ [req])"
      by (simp add: tk)
  }
  fix t self1 hist1
  assume tk: "token e (KakaoHook_init cid None) hist = (Inr t, self1, hist1)"
  from token_fresh_Inr [OF fresh tk]
  show "\<exists>req. url req = token_url \<and> hist1 = hist @ [req]"
    and s1: "self1 = (KakaoHook_init cid None)\<lparr>token_cache := Some t\<rparr>" by blast+
  have c: "token_cache self1 = Some t" by (simp add: s1)
  show "token e self1 later = (Inr t, self1, later)" for later
    using c by (rule token_cached)
  show "token_reads e m self1 later = (Inr (replicate m t), self1, later)" for m later
    using c by (rule token_reads_cached)
  show "token_retries e m self1 later = (replicate m (Inr t), self1, later)" for m later
    using c by (rule token_retries_cached)
qed

text \<open>Three reads on the stored connection: one refresh request, three times the same
  token.\<close>

theorem token_cached_after_success_witness:
  "token (world net_ok) (KakaoHook_init (Some ''kakao_default'') None) [] =
     (Inr (PStr ''tok1''),
      \<lparr>priv_token = None, kakao_conn_id = Some ''kakao_default'',
       token_cache = Some (PStr ''tok1'')\<rparr>,
      [token_request ''id1'' ''refresh1'' None]) \<and>
   token_reads (world net_ok) 3 (KakaoHook_init (Some ''kakao_default'') None) [] =
     (Inr [PStr ''tok1'', PStr ''tok1'', PStr ''tok1''],
      \<lparr>priv_token = None, kakao_conn_id = Some ''kakao_default'',
       token_cache = Some (PStr ''tok1'')\<rparr>,
      [token_request ''id1'' ''refresh1'' None]) \<and>
   token_retries (world net_ok) 3 (KakaoHook_init (Some ''kakao_default'') None) [] =
     ([Inr (PStr ''tok1''), Inr (PStr ''tok1''), Inr (PStr ''tok1'')],
      \<lparr>priv_token = None, kakao_conn_id = Some ''kakao_default'',
       token_cache = Some (PStr ''tok1'')\<rparr>,
      [token_request ''id1'' ''refresh1'' None]) \<and>
   url (token_request ''id1'' ''refresh1'' None) = token_url"
  using token_cached_after_success [where e = "world net_ok" and cid = "Some ''kakao_default''"
      and hist = "[]" and n = 3]
  by (simp add: hook_defs world_defs Let_def numeral_3_eq_3)

text \<open>A token endpoint that answers 401: nothing is cached, so the second read of a caller
  that goes on posts again, and so does the second of two calls of \<^verbatim>\<open>send_message\<close> on the
  hook.\<close>

theorem failed_read_posts_again:
  "token_retries (world net_unauthorized) 2 (KakaoHook_init (Some ''kakao_default'') None) [] =
     ([Inl (AirflowException ''Kakao Token Refresh Error: ''
              (Some (HTTPError unauthorized_response))),
       Inl (AirflowException ''Kakao Token Refresh Error: ''
              (Some (HTTPError unauthorized_response)))],
      \<lparr>priv_token = None, kakao_conn_id = Some ''kakao_default'', token_cache = None\<rparr>,
      [\<lparr>url = token_url,
        headers = [(''Content-Type'', ''application/x-www-form-urlencoded;charset=utf-8'')],
        data = [(''grant_type'', ''refresh_token''), (''client_id'', ''id1''),
                (''refresh_token'', ''refresh1'')]\<rparr>,
       \<lparr>url = token_url,
        headers = [(''Content-Type'', ''application/x-www-form-urlencoded;charset=utf-8'')],
        data = [(''grant_type'', ''refresh_token''), (''client_id'', ''id1''),
                (''refresh_token'', ''refresh1'')]\<rparr>]) \<and>
   send_messages (world net_unauthorized) (KakaoHook_init (Some ''kakao_default'') None) []
       [(None, Some [''text'' \<mapsto> PStr ''hi'']), (None, Some [''text'' \<mapsto> PStr ''hi''])] =
     (\<lparr>priv_token = None, kakao_conn_id = Some ''kakao_default'', token_cache = None\<rparr>,
      [\<lparr>url = token_url,
        headers = [(''Content-Type'', ''application/x-www-form-urlencoded;charset=utf-8'')],
        data = [(''grant_type'', ''refresh_token''), (''client_id'', ''id1''),
                (''refresh_token'', ''refresh1'')]\<rparr>,
       \<lparr>url = token_url,
        headers = [(''Content-Type'', ''application/x-www-form-urlencoded;charset=utf-8'')],
        data = [(''grant_type'', ''refresh_token''), (''client_id'', ''id1''),
                (''refresh_token'', ''refresh1'')]\<rparr>])"
  by (simp add: hook_defs world_defs Let_def numeral_2_eq_2)

section \<open>A token given to the hook\<close>

text \<open>
  C7. For every hook constructed with a token of its own that is not the empty string: reading
  \<^verbatim>\<open>self.token\<close> returns that token and issues no request; whatever calls of \<^verbatim>\<open>send_message\<close>
  are made on the hook, and however many, none of them adds a request to the token endpoint;
  and a read of the token after them still returns the token of the hook. (The property
  tests \<^verbatim>\<open>if self._token:\<close>, so the empty string counts as no token.)
\<close>

theorem override_never_refreshes:
  assumes "tok \<noteq> []"
  shows "token e (KakaoHook_init cid (Some tok)) hist =
           (Inr (PStr tok), (KakaoHook_init cid (Some tok))\<lparr>token_cache := Some (PStr tok)\<rparr>, hist)
         \<and> filter (\<lambda>r. url r = token_url)
              (snd (send_messages e (KakaoHook_init cid (Some tok)) hist calls))
             = filter (\<lambda>r. url r = token_url) hist
         \<and> token e (fst (send_messages e (KakaoHook_init cid (Some tok)) hist calls)) later =
             (Inr (PStr tok), (KakaoHook_init cid (Some tok))\<lparr>token_cache := Some (PStr tok)\<rparr>,
              later)"
proof -
  let ?self = "KakaoHook_init cid (Some tok)"
  let ?end = "fst (send_messages e ?self hist calls)"
  have p: "priv_token ?self = Some tok" and c: "token_cache ?self = None \<or> token_cache ?self = Some (PStr tok)"
    by (simp_all add: KakaoHook_init_def)
  from send_messages_with_override [OF p assms c, of e hist calls]
  have p2: "priv_token ?end = Some tok" and k2: "kakao_conn_id ?end = kakao_conn_id ?self"
    and c2: "token_cache ?end = None \<or> token_cache ?end = Some (PStr tok)"
    and f: "filter (\<lambda>r. url r = token_url) (snd (send_messages e ?self hist calls))
             = filter (\<lambda>r. url r = token_url) hist"
    by blast+
  have eq: "?end\<lparr>token_cache := Some (PStr tok)\<rparr> = ?self\<lparr>token_cache := Some (PStr tok)\<rparr>"
    using p2 k2 by (simp add: KakaoHook_init_def)
  from token_with_override [OF p assms c, of e hist] f
    token_with_override [OF p2 assms c2, of e later] eq
  show ?thesis by simp
qed

text \<open>Two sends, one to the user's own chat and one to a receiver: two requests, none to
  the token endpoint.\<close>

theorem override_never_refreshes_witness:
  "''tok'' \<noteq> [] \<and>
   token (world net_ok) (KakaoHook_init (Some ''kakao_default'') (Some ''tok'')) [] =
     (Inr (PStr ''tok''),
      \<lparr>priv_token = Some ''tok'', kakao_conn_id = Some ''kakao_default'',
       token_cache = Some (PStr ''tok'')\<rparr>, []) \<and>
   send_messages (world net_ok) (KakaoHook_init (Some ''kakao_default'') (Some ''tok'')) []
       [(None, Some [''template_object'' \<mapsto> PDict []]),
        (Some [''u1''], Some [''template_object'' \<mapsto> PDict []])] =
     (\<lparr>priv_token = Some ''tok'', kakao_conn_id = Some ''kakao_default'',
       token_cache = Some (PStr ''tok'')\<rparr>,
      [\<lparr>url = send_me_url,
        headers = [(''Authorization'', ''Bearer tok''),
                   (''Content-Type'', ''application/x-www-form-urlencoded'')],
        data = [(''template_object'', ''{}'')]\<rparr>,
       \<lparr>url = send_friend_url,
        headers = [(''Authorization'', ''Bearer tok''),
                   (''Content-Type'', ''application/x-www-form-urlencoded'')],
        data = [(''receiver_uuids'', json_text (PList [PStr ''u1''])),
                (''template_object'', ''{}'')]\<rparr>]) \<and>
   filter (\<lambda>r. url r = token_url)
     (snd (send_messages (world net_ok) (KakaoHook_init (Some ''kakao_default'') (Some ''tok'')) []
        [(None, Some [''template_object'' \<mapsto> PDict []]),
         (Some [''u1''], Some [''template_object'' \<mapsto> PDict []])])) = []"
proof -
  have ch: "chunks [''u1''] = [[''u1'']]"
    by (simp add: chunks_explicit upt_rec)
  have h: "''tok'' \<noteq> []" by simp
  from override_never_refreshes [where tok = "''tok''" and e = "world net_ok"
      and cid = "Some ''kakao_default''" and hist = "[]" and later = "[]"
      and calls = "[(None, Some [''template_object'' \<mapsto> PDict []]),
                    (Some [''u1''], Some [''template_object'' \<mapsto> PDict []])]", OF h]
  show ?thesis by (simp add: hook_defs world_defs Let_def ch)
qed

text \<open>A hook constructed with the empty string as its token refreshes: the read returns the
  token of the endpoint, after a request to it.\<close>

theorem empty_override_refreshes:
  "token (world net_ok) (KakaoHook_init (Some ''kakao_default'') (Some '''')) [] =
     (Inr (PStr ''tok1''),
      \<lparr>priv_token = Some '''', kakao_conn_id = Some ''kakao_default'',
       token_cache = Some (PStr ''tok1'')\<rparr>,
      [\<lparr>url = token_url,
        headers = [(''Content-Type'', ''application/x-www-form-urlencoded;charset=utf-8'')],
        data = [(''grant_type'', ''refresh_token''), (''client_id'', ''id1''),
                (''refresh_token'', ''refresh1'')]\<rparr>])"
  by (simp add: hook_defs world_defs Let_def)

section \<open>Keys, not truth values\<close>




end
